theory Spec2Isabelle
  imports Complex_Main "HOL-Library.Word"
begin

section \<open>Data model\<close>

text \<open>
  The simulation controller of \<^verbatim>\<open>src/main/core/controller.c\<close> and the status-code table
  of \<^verbatim>\<open>src/plug-ins/filetransfer/shd-fileserver.c\<close>, embedded as HOL functions.
  C integers are machine words: \<^verbatim>\<open>SimulationTime\<close> and \<^verbatim>\<open>guint64\<close> are 64-bit
  unsigned, \<^verbatim>\<open>guint\<close>, \<^verbatim>\<open>uint\<close> and \<^verbatim>\<open>in_addr_t\<close> are 32-bit unsigned; addition and
  multiplication wrap around as they do in C. Pointers that may be \<^verbatim>\<open>NULL\<close> are options.
  An identifier of the source that starts with an underscore is written without it.
\<close>

type_synonym SimulationTime = "64 word"
type_synonym guint64 = "64 word"
type_synonym guint = "32 word"
type_synonym in_addr_t = "32 word"

text \<open>
  Modelled from the spec: \<^verbatim>\<open>SIMTIME_ONE_MILLISECOND\<close> comes from
  \<^verbatim>\<open>main/core/support/definitions.h\<close>, which is not among the sources. The spec fixes
  the unit: a \<^verbatim>\<open>SimulationTime\<close> counts nanoseconds, so one millisecond is 1000000.
\<close>

definition SIMTIME_ONE_MILLISECOND :: SimulationTime where
  "SIMTIME_ONE_MILLISECOND = 1000000"

definition G_MAXUINT64 :: guint64 where
  "G_MAXUINT64 = - 1"

datatype LogLevel =
  LOGLEVEL_UNSET | LOGLEVEL_ERROR | LOGLEVEL_WARNING | LOGLEVEL_INFO | LOGLEVEL_DEBUG
  | LOGLEVEL_TRACE

datatype QDiscMode = Q_DISC_MODE_FIFO | Q_DISC_MODE_RR

text \<open>
  The option objects are read through accessor functions only
  (\<^verbatim>\<open>processoptions_getPath(proc)\<close>, \<^verbatim>\<open>hostoptions_getQuantity(host)\<close>,
  \<^verbatim>\<open>config_getSeed(config)\<close>, ...). Each record has one field per accessor the
  controller calls, named after it. An accessor with an out-parameter and a status
  (\<^verbatim>\<open>hostoptions_getIpAddr(host, &ipAddr) == 0\<close>) is an option: \<open>Some v\<close> when it
  returns 0 and stores \<open>v\<close>, \<open>None\<close> when it leaves the out-parameter alone. An
  iterator (\<^verbatim>\<open>processoptions_getArgs\<close>, \<^verbatim>\<open>hostoptions_iterProcesses\<close>,
  \<^verbatim>\<open>config_iterHosts\<close>) is the list it walks, in its order.
\<close>

record ProcessOptions =
  processoptions_getPath :: "string option"
  processoptions_getRawPath :: string
  processoptions_getArgs :: "string list"
  processoptions_getQuantity :: guint64
  processoptions_getEnvironment :: string
  processoptions_getStartTime :: SimulationTime
  processoptions_getStopTime :: SimulationTime

record HostOptions =
  hostoptions_getQuantity :: guint64
  hostoptions_getIpAddr :: "in_addr_t option"
  hostoptions_getNetworkNodeId :: guint
  hostoptions_getLogLevel :: LogLevel
  hostoptions_getHeartbeatLogLevel :: LogLevel
  hostoptions_getHeartbeatLogInfo :: nat
  hostoptions_getHeartbeatInterval :: SimulationTime
  hostoptions_getPcapDirectory :: "string option"
  hostoptions_getBandwidthDown :: "guint64 option"
  hostoptions_getBandwidthUp :: "guint64 option"
  hostoptions_iterProcesses :: "ProcessOptions list"

record ConfigOptions =
  config_getSeed :: guint
  config_getRunahead :: SimulationTime
  config_getStopTime :: SimulationTime
  config_getBootstrapEndTime :: SimulationTime
  config_getWorkers :: guint
  config_getUseShortestPath :: bool
  config_getLogLevel :: LogLevel
  config_getSocketSendBuffer :: guint64
  config_getSocketRecvBuffer :: guint64
  config_getSocketSendAutotune :: bool
  config_getSocketRecvAutotune :: bool
  config_getInterfaceBuffer :: guint64
  config_getInterfaceQdisc :: QDiscMode
  config_iterHosts :: "(string \<times> HostOptions) list"

text \<open>The descriptor handed to the manager for each host instance.\<close>

record HostParameters =
  hostname :: string
  cpuFrequency :: guint64
  cpuThreshold :: guint64
  cpuPrecision :: guint64
  ipAddr :: in_addr_t
  logLevel :: LogLevel
  heartbeatLogLevel :: LogLevel
  heartbeatLogInfo :: nat
  heartbeatInterval :: SimulationTime
  pcapDir :: "string option"
  sendBufSize :: guint64
  recvBufSize :: guint64
  autotuneSendBuf :: bool
  autotuneRecvBuf :: bool
  interfaceBufSize :: guint64
  qdisc :: QDiscMode
  requestedBwDownBits :: guint64
  requestedBwUpBits :: guint64

record VirtualProcess =
  vp_hostname :: string
  vp_plugin :: string
  vp_startTime :: SimulationTime
  vp_stopTime :: SimulationTime
  vp_argv :: "string list"
  vp_environment :: string

text \<open>
  The manager, the network graph, the routing table and the random source are other
  modules of the simulator. The controller sees a manager as the raw CPU frequency it
  reports and the hosts and processes added to it so far (in the order of the calls to
  \<^verbatim>\<open>manager_addNewVirtualHost\<close> and \<^verbatim>\<open>manager_addNewVirtualProcess\<close>), and a graph
  as its two per-node bandwidth accessors.
\<close>

record Manager =
  manager_getRawCPUFrequency :: guint
  virtualHosts :: "HostParameters list"
  virtualProcesses :: "VirtualProcess list"

record NetworkGraph =
  networkgraph_nodeBandwidthDownBits :: "guint \<Rightarrow> guint64 option"
  networkgraph_nodeBandwidthUpBits :: "guint \<Rightarrow> guint64 option"

datatype Random = Random guint

datatype RoutingInfo = RoutingInfo

datatype DNS = DNS

text \<open>
  Modelled from the spec: the IP assignment (\<^verbatim>\<open>ipassignment_new\<close>,
  \<^verbatim>\<open>ipassignment_assignHostWithIp\<close>, \<^verbatim>\<open>ipassignment_assignHost\<close>) is not among the
  sources. The spec describes it as a mapping from IPv4 address to graph node in which
  every assigned address is unique, and an allocator that draws 32-bit words from the
  seeded random source, rejecting the reserved ranges (0/8, 127/8, 224/4,
  255.255.255.255) and the values already assigned. The association list keeps the
  bindings, newest first; \<open>ia_draws\<close> is the output of the random source that has not
  been consumed yet.
\<close>

record IpAssignment =
  ia_assigned :: "(in_addr_t \<times> guint) list"
  ia_draws :: "in_addr_t list"

text \<open>
  \<^verbatim>\<open>struct _Controller\<close>. The wall-clock timer and the magic tag are never read or
  written by the functions embedded here and are left out. \<^verbatim>\<open>random\<close> and \<^verbatim>\<open>graph\<close>
  carry a suffix because HOL has constants of these names.
\<close>

record Controller =
  config :: ConfigOptions
  random_src :: "Random option"
  graph_ptr :: "NetworkGraph option"
  ipAssignment :: "IpAssignment option"
  routingInfo :: "RoutingInfo option"
  dns :: "DNS option"
  minJumpTimeConfig :: SimulationTime
  minJumpTime :: SimulationTime
  nextMinJumpTime :: SimulationTime
  executeWindowStart :: SimulationTime
  executeWindowEnd :: SimulationTime
  endTime :: SimulationTime
  bootstrapEndTime :: SimulationTime
  manager :: "Manager option"

section \<open>Window advancement\<close>

text \<open>
  \<^verbatim>\<open>_controller_getMinTimeJump\<close>: the observed topology minimum, 10 milliseconds when
  none has been committed yet, raised to the configured runahead when that is set and
  larger.
\<close>

definition controller_getMinTimeJump :: "Controller \<Rightarrow> SimulationTime" where
  "controller_getMinTimeJump controller =
     (let minJumpTime0 =
            (if minJumpTime controller > 0 then minJumpTime controller
             else 10 * SIMTIME_ONE_MILLISECOND)
      in if minJumpTimeConfig controller > 0 \<and> minJumpTime0 < minJumpTimeConfig controller
         then minJumpTimeConfig controller
         else minJumpTime0)"

text \<open>
  Conditions that end the process instead of returning: a failed \<^verbatim>\<open>utility_assert\<close>,
  \<^verbatim>\<open>utility_panic\<close>, and a conversion whose result C leaves undefined. The macros come
  from \<^verbatim>\<open>main/utility/utility.h\<close>, which is not among the sources; an assertion is
  modelled as checked.
\<close>

datatype abort = AssertionFailed | Panic | UndefinedBehaviour

text \<open>
  The cast \<^verbatim>\<open>(SimulationTime)minPathLatency\<close> of a \<^verbatim>\<open>gdouble\<close>. A finite double is
  a real number, and the cast depends on nothing but that number: it discards the
  fractional part (rounds towards zero), and is undefined in C when the result does not
  fit 64 bits.
\<close>

definition gdouble_to_guint64 :: "real \<Rightarrow> guint64 option" where
  "gdouble_to_guint64 x =
     (if - 1 < x \<and> x < 2 ^ 64
      then Some (word_of_int (if 0 \<le> x then \<lfloor>x\<rfloor> else \<lceil>x\<rceil>))
      else None)"

text \<open>
  \<^verbatim>\<open>controller_updateMinTimeJump\<close>. The product with \<^verbatim>\<open>SIMTIME_ONE_MILLISECOND\<close> is a
  64-bit unsigned product. The \<^verbatim>\<open>debug\<close> message of the update branch is not part of
  the result.
\<close>

definition controller_updateMinTimeJump :: "Controller \<Rightarrow> real \<Rightarrow> abort + Controller" where
  "controller_updateMinTimeJump controller minPathLatency =
     (case gdouble_to_guint64 minPathLatency of
        None \<Rightarrow> Inl UndefinedBehaviour
      | Some ms \<Rightarrow>
          (let minPathLatencySimTime = ms * SIMTIME_ONE_MILLISECOND
           in if nextMinJumpTime controller = 0
                 \<or> minPathLatencySimTime < nextMinJumpTime controller
              then (if minPathLatencySimTime > 0
                    then Inr (controller\<lparr>nextMinJumpTime := minPathLatencySimTime\<rparr>)
                    else Inl AssertionFailed)
              else Inr controller))"

text \<open>\<^verbatim>\<open>_controller_initializeTimeWindows\<close>.\<close>

definition controller_initializeTimeWindows :: "Controller \<Rightarrow> Controller" where
  "controller_initializeTimeWindows controller =
     (let c1 = controller\<lparr>endTime := config_getStopTime (config controller)\<rparr>;
          nWorkers = config_getWorkers (config c1);
          c2 = (if nWorkers > 0
                then (let c3 = c1\<lparr>executeWindowStart := 0\<rparr>;
                          jump = controller_getMinTimeJump c3
                      in c3\<lparr>executeWindowEnd := jump\<rparr>)
                else c1\<lparr>executeWindowStart := 0, executeWindowEnd := G_MAXUINT64\<rparr>)
      in c2\<lparr>bootstrapEndTime := config_getBootstrapEndTime (config c2)\<rparr>)"

text \<open>
  \<^verbatim>\<open>controller_managerFinishedCurrentRound\<close>. The C function mutates the controller,
  stores the window through its two out-parameters (asserted not to be \<^verbatim>\<open>NULL\<close>) and
  returns a \<^verbatim>\<open>gboolean\<close>; the model returns all four. The sum
  \<^verbatim>\<open>minNextEventTime + _controller_getMinTimeJump(controller)\<close> is a 64-bit unsigned sum.
\<close>

record RoundResult =
  keepRunning :: bool
  windowStart :: SimulationTime
  windowEnd :: SimulationTime
  controllerAfter :: Controller

definition controller_managerFinishedCurrentRound ::
  "Controller \<Rightarrow> SimulationTime \<Rightarrow> RoundResult" where
  "controller_managerFinishedCurrentRound controller minNextEventTime =
     (let c1 = (if nextMinJumpTime controller \<noteq> 0
                then controller\<lparr>minJumpTime := nextMinJumpTime controller\<rparr>
                else controller);
          newStart = minNextEventTime;
          newEnd0 = minNextEventTime + controller_getMinTimeJump c1;
          newEnd = (if newEnd0 > endTime c1 then endTime c1 else newEnd0);
          c2 = c1\<lparr>executeWindowStart := newStart, executeWindowEnd := newEnd\<rparr>
      in \<lparr>keepRunning = newStart < newEnd,
          windowStart = executeWindowStart c2,
          windowEnd = executeWindowEnd c2,
          controllerAfter = c2\<rparr>)"

text \<open>
  The manager's side of the protocol, which the sources do not include: a sequence of
  calls into the controller, each made on the controller state the previous one left.
  The value \<^verbatim>\<open>controller_managerFinishedCurrentRound\<close> returns tells the manager whether
  to keep running (``return TRUE if we should keep running''), and the spec's lifecycle
  goes from Running to the terminal state Finished when the new start is not before the
  new end: the manager makes a further call only after a round that returned true.
  \<open>manager_calls\<close> collects what each \<^verbatim>\<open>controller_managerFinishedCurrentRound\<close>
  returned; a round that returns false ends the sequence, and so does a call that aborts.
\<close>

datatype call = ManagerFinishedCurrentRound SimulationTime | UpdateMinTimeJump real

fun manager_calls :: "Controller \<Rightarrow> call list \<Rightarrow> RoundResult list" where
  "manager_calls c [] = []"
| "manager_calls c (ManagerFinishedCurrentRound t # cs) =
     controller_managerFinishedCurrentRound c t
       # (if keepRunning (controller_managerFinishedCurrentRound c t)
          then manager_calls (controllerAfter (controller_managerFinishedCurrentRound c t)) cs
          else [])"
| "manager_calls c (UpdateMinTimeJump x # cs) =
     (case controller_updateMinTimeJump c x of
        Inl a \<Rightarrow> []
      | Inr c' \<Rightarrow> manager_calls c' cs)"

text \<open>
  The workers' contract: every \<^verbatim>\<open>minNextEventTime\<close> reported in the sequence is at least
  the end of the window stored when the call is made.
\<close>

fun workers_contract :: "Controller \<Rightarrow> call list \<Rightarrow> bool" where
  "workers_contract c [] = True"
| "workers_contract c (ManagerFinishedCurrentRound t # cs) =
     (executeWindowEnd c \<le> t
      \<and> (if keepRunning (controller_managerFinishedCurrentRound c t)
          then workers_contract (controllerAfter (controller_managerFinishedCurrentRound c t)) cs
          else True))"
| "workers_contract c (UpdateMinTimeJump x # cs) =
     (case controller_updateMinTimeJump c x of
        Inl a \<Rightarrow> True
      | Inr c' \<Rightarrow> workers_contract c' cs)"

section \<open>Construction\<close>

text \<open>
  \<^verbatim>\<open>random_new\<close> belongs to \<^verbatim>\<open>main/utility/random.h\<close>; a random source is known here
  by the seed it was created from.
\<close>

definition random_new :: "guint \<Rightarrow> Random" where
  "random_new seed = Random seed"

text \<open>
  \<^verbatim>\<open>controller_new\<close>: \<^verbatim>\<open>g_new0\<close> gives a controller of zeros and \<^verbatim>\<open>NULL\<close>s, three
  fields are set, and \<^verbatim>\<open>info("simulation controller created")\<close> is called before the
  controller is returned. The second component is the list of log messages the call
  emits, each with its level.
\<close>

definition controller_new :: "ConfigOptions \<Rightarrow> Controller \<times> (LogLevel \<times> string) list" where
  "controller_new cfg =
     (let c0 = \<lparr>config = cfg, random_src = None, graph_ptr = None, ipAssignment = None,
                routingInfo = None, dns = None, minJumpTimeConfig = 0, minJumpTime = 0,
                nextMinJumpTime = 0, executeWindowStart = 0, executeWindowEnd = 0,
                endTime = 0, bootstrapEndTime = 0, manager = None\<rparr>;
          c1 = c0\<lparr>random_src := Some (random_new (config_getSeed cfg))\<rparr>;
          c2 = c1\<lparr>minJumpTimeConfig := config_getRunahead cfg\<rparr>
      in (c2, [(LOGLEVEL_INFO, ''simulation controller created'')]))"

section \<open>Host registration\<close>

text \<open>
  The C functions of registration return 0 or -1 and log what went wrong; the spec names
  the kinds of error. Each \<^verbatim>\<open>return -1\<close> of the source is a \<open>Failure\<close> of the kind its
  log message describes. A call through a \<^verbatim>\<open>NULL\<close> pointer does not return at all.
\<close>

datatype error =
  ErrAddressInUse | ErrReservedAddress | ErrPoolExhausted | ErrAmbiguousAddress
  | ErrBandwidth | ErrPluginPath

datatype status = Success | Failure error | Aborted abort

text \<open>
  Modelled from the spec: the iterators \<^verbatim>\<open>config_iterHosts\<close> and
  \<^verbatim>\<open>hostoptions_iterProcesses\<close> are not among the sources. They call the callback on
  every entry in order, on the state the previous call left, and stop at the first call
  that does not return 0, whose result they return. The \<^verbatim>\<open>for\<close> loops of the source
  over \<^verbatim>\<open>0 <= i < quantity\<close> whose body may return early run the same way over the
  indices.
\<close>

fun for_each :: "('a \<Rightarrow> 's \<Rightarrow> status \<times> 's) \<Rightarrow> 'a list \<Rightarrow> 's \<Rightarrow> status \<times> 's" where
  "for_each f [] s = (Success, s)"
| "for_each f (x # xs) s =
     (case f x s of
        (Success, s') \<Rightarrow> for_each f xs s'
      | (Failure e, s') \<Rightarrow> (Failure e, s')
      | (Aborted a, s') \<Rightarrow> (Aborted a, s'))"

text \<open>
  Modelled from the spec: IP assignment (section 4.2 of the spec). An address is reserved
  when its first octet is 0 or 127, when it lies in 224/4, or when it is
  255.255.255.255. \<^verbatim>\<open>assignHostWithIp\<close> binds the given address unless it is reserved
  or in use; \<^verbatim>\<open>assignHost\<close> takes the first draw of the random source that is neither
  reserved nor assigned, and fails when the draws run out. Whether the graph node exists
  is the loader's check (section 4.1) and is not repeated here.
\<close>

definition ipassignment_new :: "in_addr_t list \<Rightarrow> IpAssignment" where
  "ipassignment_new draws = \<lparr>ia_assigned = [], ia_draws = draws\<rparr>"

definition ip_reserved :: "in_addr_t \<Rightarrow> bool" where
  "ip_reserved ip =
     (let octet = unat ip div 2 ^ 24
      in octet = 0 \<or> octet = 127 \<or> (224 \<le> octet \<and> octet < 240) \<or> ip = 0xFFFFFFFF)"

definition ip_assigned :: "IpAssignment \<Rightarrow> in_addr_t \<Rightarrow> bool" where
  "ip_assigned ia ip = (ip \<in> set (map fst (ia_assigned ia)))"

definition ipassignment_assignHostWithIp ::
  "IpAssignment \<Rightarrow> guint \<Rightarrow> in_addr_t \<Rightarrow> error + IpAssignment" where
  "ipassignment_assignHostWithIp ia node ip =
     (if ip_reserved ip then Inl ErrReservedAddress
      else if ip_assigned ia ip then Inl ErrAddressInUse
      else Inr (ia\<lparr>ia_assigned := (ip, node) # ia_assigned ia\<rparr>))"

fun next_free_draw :: "IpAssignment \<Rightarrow> in_addr_t list \<Rightarrow> (in_addr_t \<times> in_addr_t list) option" where
  "next_free_draw ia [] = None"
| "next_free_draw ia (w # ws) =
     (if ip_reserved w \<or> ip_assigned ia w then next_free_draw ia ws else Some (w, ws))"

definition ipassignment_assignHost ::
  "IpAssignment \<Rightarrow> guint \<Rightarrow> error + in_addr_t \<times> IpAssignment" where
  "ipassignment_assignHost ia node =
     (case next_free_draw ia (ia_draws ia) of
        None \<Rightarrow> Inl ErrPoolExhausted
      | Some (ip, rest) \<Rightarrow>
          Inr (ip, ia\<lparr>ia_assigned := (ip, node) # ia_assigned ia, ia_draws := rest\<rparr>))"

text \<open>The two calls into the manager that registration makes.\<close>

definition manager_addNewVirtualHost :: "Manager \<Rightarrow> HostParameters \<Rightarrow> Manager" where
  "manager_addNewVirtualHost m params = m\<lparr>virtualHosts := virtualHosts m @ [params]\<rparr>"

definition manager_addNewVirtualProcess ::
  "Manager \<Rightarrow> string \<Rightarrow> string \<Rightarrow> SimulationTime \<Rightarrow> SimulationTime \<Rightarrow> string list \<Rightarrow> string
     \<Rightarrow> Manager" where
  "manager_addNewVirtualProcess m hostName pluginName startTime stopTime argv environment =
     m\<lparr>virtualProcesses := virtualProcesses m @
         [\<lparr>vp_hostname = hostName, vp_plugin = pluginName, vp_startTime = startTime,
           vp_stopTime = stopTime, vp_argv = argv, vp_environment = environment\<rparr>]\<rparr>"

text \<open>
  \<^verbatim>\<open>_controller_registerProcessCallback\<close>, with the host name of its callback arguments.
  The argument vector is the resolved path followed by the arguments; the loop adds the
  same process \<^verbatim>\<open>quantity\<close> times.
\<close>

definition controller_registerProcessCallback ::
  "string \<Rightarrow> ProcessOptions \<Rightarrow> Controller \<Rightarrow> status \<times> Controller" where
  "controller_registerProcessCallback hostName proc controller =
     (case processoptions_getPath proc of
        None \<Rightarrow> (Failure ErrPluginPath, controller)
      | Some plugin \<Rightarrow>
          (let argv = plugin # processoptions_getArgs proc;
               quantity = processoptions_getQuantity proc;
               environment = processoptions_getEnvironment proc
           in case manager controller of
                None \<Rightarrow> (if quantity = 0 then (Success, controller)
                         else (Aborted UndefinedBehaviour, controller))
              | Some m \<Rightarrow>
                  (Success,
                   controller\<lparr>manager := Some
                     (((\<lambda>m. manager_addNewVirtualProcess m hostName plugin
                               (processoptions_getStartTime proc)
                               (processoptions_getStopTime proc) argv environment)
                        ^^ unat quantity) m)\<rparr>)))"

text \<open>
  The decimal digits of a number, as \<^verbatim>\<open>g_string_append_printf\<close> writes them for
  \<^verbatim>\<open>G_GUINT64_FORMAT\<close>.
\<close>

definition digit_char :: "nat \<Rightarrow> char" where
  "digit_char d = ''0123456789'' ! d"

function decimal :: "nat \<Rightarrow> string" where
  "decimal n = (if n < 10 then [digit_char n] else decimal (n div 10) @ [digit_char (n mod 10)])"
  by pat_completeness auto
termination
  by (relation "measure id") auto

declare decimal.simps [simp del]

text \<open>
  An accessor with an out-parameter: \<open>accessor_found\<close> is the test \<^verbatim>\<open>0 == f(..., &out)\<close>,
  \<open>accessor_store\<close> is the value of \<^verbatim>\<open>out\<close> after the call, given its value before.
\<close>

definition accessor_found :: "'a option \<Rightarrow> bool" where
  "accessor_found r = (r \<noteq> None)"

definition accessor_store :: "'a option \<Rightarrow> 'a \<Rightarrow> 'a" where
  "accessor_store r old = (case r of Some v \<Rightarrow> v | None \<Rightarrow> old)"

text \<open>
  The body of the loop of \<^verbatim>\<open>_controller_registerHostCallback\<close> (lines 296 to 384) for
  the instance \<open>i\<close>, in the order of the source: \<open>instance_hostname\<close> is the host name
  of lines 298 to 301; \<open>assign_instance_ip\<close> is the assignment of lines 306 to 316, which
  gives the address of the instance and the new assignment, or fails;
  \<open>instance_params\<close> is the descriptor as lines 318 to 338 fill it, on the zeros of
  \<^verbatim>\<open>g_new0\<close>; \<open>register_host_instance\<close> is the whole body, which then resolves the
  bandwidths, adds the host and registers its processes. The loop carries the local
  variable \<^verbatim>\<open>ipAddr\<close>, which \<^verbatim>\<open>ipassignment_assignHost\<close> overwrites, next to the
  controller.
\<close>

definition instance_hostname :: "string \<Rightarrow> guint64 \<Rightarrow> nat \<Rightarrow> string" where
  "instance_hostname name quantity i = (if quantity > 1 then name @ decimal (i + 1) else name)"

definition assign_instance_ip ::
  "bool \<Rightarrow> IpAssignment \<Rightarrow> guint \<Rightarrow> in_addr_t \<Rightarrow> error + in_addr_t \<times> IpAssignment" where
  "assign_instance_ip ipAddrSet ia graphNode ip0 =
     (if ipAddrSet
      then (case ipassignment_assignHostWithIp ia graphNode ip0 of
              Inl e \<Rightarrow> Inl e
            | Inr ia' \<Rightarrow> Inr (ip0, ia'))
      else ipassignment_assignHost ia graphNode)"

definition instance_params ::
  "ConfigOptions \<Rightarrow> HostOptions \<Rightarrow> guint \<Rightarrow> string \<Rightarrow> in_addr_t \<Rightarrow> HostParameters" where
  "instance_params cfg host managerCpuFreq hostnameBuffer ip =
     \<lparr>hostname = hostnameBuffer,
      cpuFrequency = ucast (max 0 managerCpuFreq),
      cpuThreshold = 0,
      cpuPrecision = 200,
      ipAddr = ip,
      logLevel = hostoptions_getLogLevel host,
      heartbeatLogLevel = hostoptions_getHeartbeatLogLevel host,
      heartbeatLogInfo = hostoptions_getHeartbeatLogInfo host,
      heartbeatInterval = hostoptions_getHeartbeatInterval host,
      pcapDir = hostoptions_getPcapDirectory host,
      sendBufSize = config_getSocketSendBuffer cfg,
      recvBufSize = config_getSocketRecvBuffer cfg,
      autotuneSendBuf = config_getSocketSendAutotune cfg,
      autotuneRecvBuf = config_getSocketRecvAutotune cfg,
      interfaceBufSize = config_getInterfaceBuffer cfg,
      qdisc = config_getInterfaceQdisc cfg,
      requestedBwDownBits = 0,
      requestedBwUpBits = 0\<rparr>"

definition register_host_instance ::
  "string \<Rightarrow> ConfigOptions \<Rightarrow> HostOptions \<Rightarrow> guint \<Rightarrow> bool \<Rightarrow> nat
     \<Rightarrow> in_addr_t \<times> Controller \<Rightarrow> status \<times> in_addr_t \<times> Controller" where
  "register_host_instance name cfg host managerCpuFreq ipAddrSet i state =
     (let ip0 = fst state;
          controller = snd state;
          hostnameBuffer = instance_hostname name (hostoptions_getQuantity host) i;
          graphNode = hostoptions_getNetworkNodeId host
      in case ipAssignment controller of
           None \<Rightarrow> (Aborted UndefinedBehaviour, ip0, controller)
         | Some ia \<Rightarrow>
             (case assign_instance_ip ipAddrSet ia graphNode ip0 of
                Inl e \<Rightarrow> (Failure e, ip0, controller)
              | Inr (ip1, ia1) \<Rightarrow>
                  (let c1 = controller\<lparr>ipAssignment := Some ia1\<rparr>;
                       params = instance_params cfg host managerCpuFreq hostnameBuffer ip1
                   in case graph_ptr c1 of
                        None \<Rightarrow> (Aborted UndefinedBehaviour, ip1, c1)
                      | Some g \<Rightarrow>
                          (let graphDown = networkgraph_nodeBandwidthDownBits g graphNode;
                               hostDown = hostoptions_getBandwidthDown host;
                               graphUp = networkgraph_nodeBandwidthUpBits g graphNode;
                               hostUp = hostoptions_getBandwidthUp host;
                               foundBwDown = (accessor_found graphDown \<or> accessor_found hostDown);
                               foundBwUp = (accessor_found graphUp \<or> accessor_found hostUp);
                               params = params
                                 \<lparr>requestedBwDownBits :=
                                    accessor_store hostDown
                                      (accessor_store graphDown (requestedBwDownBits params)),
                                  requestedBwUpBits :=
                                    accessor_store hostUp
                                      (accessor_store graphUp (requestedBwUpBits params))\<rparr>
                           in if \<not> foundBwDown then (Failure ErrBandwidth, ip1, c1)
                              else if \<not> foundBwUp then (Failure ErrBandwidth, ip1, c1)
                              else if requestedBwDownBits params = 0
                                      \<or> requestedBwUpBits params = 0
                              then (Failure ErrBandwidth, ip1, c1)
                              else (case manager c1 of
                                      None \<Rightarrow> (Aborted UndefinedBehaviour, ip1, c1)
                                    | Some m \<Rightarrow>
                                        (let c2 = c1\<lparr>manager :=
                                               Some (manager_addNewVirtualHost m params)\<rparr>
                                         in case for_each
                                                   (controller_registerProcessCallback
                                                      hostnameBuffer)
                                                   (hostoptions_iterProcesses host) c2 of
                                              (st, c3) \<Rightarrow> (st, ip1, c3)))))))"

text \<open>
  \<^verbatim>\<open>_controller_registerHostCallback\<close>. The flag is
  \<^verbatim>\<open>callbackOptions->registerIfAddressSpecified\<close>. The manager is read first, for its CPU
  frequency; an entry whose address is set when the pass registers the others, or the
  other way round, is skipped; an address set for a quantity above 1 is refused before
  the loop starts.
\<close>

definition controller_registerHostCallback ::
  "string \<Rightarrow> ConfigOptions \<Rightarrow> HostOptions \<Rightarrow> bool \<Rightarrow> Controller \<Rightarrow> status \<times> Controller" where
  "controller_registerHostCallback name cfg host registerIfAddressSpecified controller =
     (case manager controller of
        None \<Rightarrow> (Aborted UndefinedBehaviour, controller)
      | Some m \<Rightarrow>
          (let managerCpuFreq = manager_getRawCPUFrequency m;
               quantity = hostoptions_getQuantity host;
               ip0 = accessor_store (hostoptions_getIpAddr host) 0;
               ipAddrSet = accessor_found (hostoptions_getIpAddr host)
           in if ipAddrSet \<noteq> registerIfAddressSpecified then (Success, controller)
              else if ipAddrSet \<and> quantity > 1 then (Failure ErrAmbiguousAddress, controller)
              else (case for_each (register_host_instance name cfg host managerCpuFreq ipAddrSet)
                           [0..<unat quantity] (ip0, controller) of
                      (st, ip1, c') \<Rightarrow> (st, c'))))"

text \<open>
  \<^verbatim>\<open>_controller_registerHosts\<close>: one pass over the host entries for those with an address,
  a second pass for the others. \<open>register_pass\<close> is the call
  \<^verbatim>\<open>config_iterHosts(controller->config, _controller_registerHostCallback, &options)\<close>
  with the flag of \<^verbatim>\<open>options\<close>, over the entries given; either pass stops at the first
  entry that fails.
\<close>

definition register_pass ::
  "bool \<Rightarrow> ConfigOptions \<Rightarrow> (string \<times> HostOptions) list \<Rightarrow> Controller \<Rightarrow> status \<times> Controller" where
  "register_pass registerIfAddressSpecified cfg hosts controller =
     for_each (\<lambda>entry. controller_registerHostCallback (fst entry) cfg (snd entry)
                          registerIfAddressSpecified)
       hosts controller"

definition controller_registerHosts :: "Controller \<Rightarrow> status \<times> Controller" where
  "controller_registerHosts controller =
     (case register_pass True (config controller) (config_iterHosts (config controller))
             controller of
        (Success, c1) \<Rightarrow> register_pass False (config c1) (config_iterHosts (config c1)) c1
      | (Failure e, c1) \<Rightarrow> (Failure e, c1)
      | (Aborted a, c1) \<Rightarrow> (Aborted a, c1))"

text \<open>
  The modules \<^verbatim>\<open>controller_run\<close> calls and the sources do not include: what each returns
  is a parameter of the run. \<open>ip_pool\<close> is the sequence of words the allocator of the IP
  assignment will draw.
\<close>

record Collaborators =
  networkgraph_load :: "ConfigOptions \<Rightarrow> NetworkGraph option"
  ip_pool :: "in_addr_t list"
  random_nextUInt :: "Random \<Rightarrow> guint \<times> Random"
  manager_new :: "ConfigOptions \<Rightarrow> SimulationTime \<Rightarrow> SimulationTime \<Rightarrow> guint \<Rightarrow> Manager option"
  routinginfo_new :: "NetworkGraph \<Rightarrow> IpAssignment \<Rightarrow> bool \<Rightarrow> RoutingInfo option"
  manager_run :: "Controller \<Rightarrow> Controller"
  manager_free :: "Manager \<Rightarrow> int"

text \<open>\<^verbatim>\<open>_controller_loadNetworkGraph\<close>.\<close>

definition controller_loadNetworkGraph :: "Collaborators \<Rightarrow> Controller \<Rightarrow> bool \<times> Controller" where
  "controller_loadNetworkGraph env controller =
     (let c1 = controller\<lparr>graph_ptr := networkgraph_load env (config controller)\<rparr>;
          c2 = c1\<lparr>ipAssignment := Some (ipassignment_new (ip_pool env))\<rparr>
      in if graph_ptr c2 = None then (False, c2)
         else (True, c2\<lparr>dns := Some DNS\<rparr>))"

text \<open>
  \<^verbatim>\<open>controller_run\<close>: the exit code it returns, or the abort that ends the process
  first, and the controller it leaves.
\<close>

definition controller_run :: "Collaborators \<Rightarrow> Controller \<Rightarrow> (abort + int) \<times> Controller" where
  "controller_run env controller =
     (case controller_loadNetworkGraph env controller of
        (False, c1) \<Rightarrow> (Inr 1, c1)
      | (True, c1) \<Rightarrow>
          (let c2 = controller_initializeTimeWindows c1
           in case random_src c2 of
                None \<Rightarrow> (Inl UndefinedBehaviour, c2)
              | Some rnd \<Rightarrow>
                  (let managerSeed = fst (random_nextUInt env rnd);
                       c3 = c2\<lparr>random_src := Some (snd (random_nextUInt env rnd))\<rparr>;
                       c4 = c3\<lparr>manager := manager_new env (config c3) (endTime c3)
                                              (bootstrapEndTime c3) managerSeed\<rparr>
                   in if manager c4 = None then (Inl Panic, c4)
                      else (case controller_registerHosts c4 of
                              (Failure e, c5) \<Rightarrow> (Inr 1, c5)
                            | (Aborted a, c5) \<Rightarrow> (Inl a, c5)
                            | (Success, c5) \<Rightarrow>
                                (case (graph_ptr c5, ipAssignment c5) of
                                   (Some g, Some ia) \<Rightarrow>
                                     (let c6 = c5\<lparr>routingInfo :=
                                            routinginfo_new env g ia
                                              (config_getUseShortestPath (config c5))\<rparr>
                                      in if routingInfo c6 = None then (Inr 1, c6)
                                         else (let c7 = c6\<lparr>graph_ptr := None\<rparr>;
                                                   c8 = manager_run env c7
                                               in case manager c8 of
                                                    None \<Rightarrow> (Inl UndefinedBehaviour, c8)
                                                  | Some m \<Rightarrow> (Inr (manager_free env m), c8)))
                                 | _ \<Rightarrow> (Inl UndefinedBehaviour, c5))))))"

section \<open>The file server's status codes\<close>

text \<open>
  \<^verbatim>\<open>fileserver_code_strings\<close> and \<^verbatim>\<open>fileserver_codetoa\<close>. The bound of the range check
  is \<^verbatim>\<open>sizeof(fileserver_code_strings)\<close>, the size of the table in bytes: the number of
  entries times the size of a pointer, which is a parameter here (8 on a 64-bit target,
  4 on a 32-bit one). The comparison converts the non-negative \<^verbatim>\<open>index\<close> to the unsigned
  type of the size without changing its value. The function returns an entry, returns
  \<^verbatim>\<open>NULL\<close> (\<open>None\<close>), or reads the table past its end, which C leaves undefined.
\<close>

definition fileserver_code_strings :: "string list" where
  "fileserver_code_strings =
     [''FS_SUCCESS'', ''FS_CLOSED'', ''FS_ERR_INVALID'', ''FS_ERR_FATAL'', ''FS_ERR_BADSD'',
      ''FS_ERR_WOULDBLOCK'', ''FS_ERR_BUFSPACE'', ''FS_ERR_SOCKET'', ''FS_ERR_BIND'',
      ''FS_ERR_LISTEN'', ''FS_ERR_ACCEPT'', ''FS_ERR_RECV'', ''FS_ERR_SEND'', ''FS_ERR_CLOSE'']"

definition sizeof_fileserver_code_strings :: "nat \<Rightarrow> nat" where
  "sizeof_fileserver_code_strings sizeof_pointer =
     length fileserver_code_strings * sizeof_pointer"

definition fileserver_codetoa :: "nat \<Rightarrow> int \<Rightarrow> abort + string option" where
  "fileserver_codetoa sizeof_pointer fsc =
     (let index = fsc
      in if index \<ge> 0 \<and> nat index < sizeof_fileserver_code_strings sizeof_pointer
         then (if nat index < length fileserver_code_strings
               then Inr (Some (fileserver_code_strings ! nat index))
               else Inl UndefinedBehaviour)
         else Inr None)"

section \<open>Observations\<close>

text \<open>
  What the properties read off a controller: the hosts added to its manager so far, the
  addresses bound in its IP assignment, and whether the three objects registration works
  on exist, as they do when \<^verbatim>\<open>controller_run\<close> calls \<^verbatim>\<open>_controller_registerHosts\<close>.
\<close>

definition registered_hosts :: "Controller \<Rightarrow> HostParameters list" where
  "registered_hosts c = (case manager c of None \<Rightarrow> [] | Some m \<Rightarrow> virtualHosts m)"

definition assigned_addresses :: "Controller \<Rightarrow> in_addr_t set" where
  "assigned_addresses c =
     (case ipAssignment c of None \<Rightarrow> {} | Some ia \<Rightarrow> set (map fst (ia_assigned ia)))"

definition registration_ready :: "Controller \<Rightarrow> bool" where
  "registration_ready c = (manager c \<noteq> None \<and> ipAssignment c \<noteq> None \<and> graph_ptr c \<noteq> None)"

text \<open>
  What a step of registration keeps of the state \<open>c\<close> it started from: the three objects
  exist, the configuration and the graph are the same, every address assigned stays
  assigned, and the hosts are those of \<open>c\<close> followed by new ones; when \<open>fresh\<close> is set,
  no new host has an address that was assigned in \<open>c\<close>.
\<close>

definition keeps :: "Controller \<Rightarrow> bool \<Rightarrow> Controller \<Rightarrow> bool" where
  "keeps c fresh c' =
     (registration_ready c' \<and> config c' = config c \<and> graph_ptr c' = graph_ptr c
      \<and> assigned_addresses c \<subseteq> assigned_addresses c'
      \<and> (\<exists>new. registered_hosts c' = registered_hosts c @ new
            \<and> (fresh \<longrightarrow> (\<forall>p \<in> set new. ipAddr p \<notin> assigned_addresses c))))"

text \<open>
  The spec's rule for one direction of bandwidth, in its words: the value of the host
  options if present, otherwise that of the graph node.
\<close>

definition resolved_bandwidth :: "guint64 option \<Rightarrow> guint64 option \<Rightarrow> guint64 option" where
  "resolved_bandwidth fromHost fromGraph =
     (case fromHost of Some v \<Rightarrow> Some v | None \<Rightarrow> fromGraph)"

section \<open>Scenario inputs\<close>

text \<open>
  Concrete inputs for the end-to-end scenarios of the spec: a configuration with the given
  stop time, runahead, number of workers and host entries, and the controller that
  \<^verbatim>\<open>controller_run\<close> has prepared from it when the first window opens.
\<close>

definition scenario_config ::
  "SimulationTime \<Rightarrow> SimulationTime \<Rightarrow> guint \<Rightarrow> (string \<times> HostOptions) list \<Rightarrow> ConfigOptions" where
  "scenario_config stopTime runahead workers hosts =
     \<lparr>config_getSeed = 1, config_getRunahead = runahead, config_getStopTime = stopTime,
      config_getBootstrapEndTime = 0, config_getWorkers = workers,
      config_getUseShortestPath = True, config_getLogLevel = LOGLEVEL_INFO,
      config_getSocketSendBuffer = 131072, config_getSocketRecvBuffer = 174760,
      config_getSocketSendAutotune = True, config_getSocketRecvAutotune = True,
      config_getInterfaceBuffer = 1024000, config_getInterfaceQdisc = Q_DISC_MODE_FIFO,
      config_iterHosts = hosts\<rparr>"

definition scenario_controller :: "SimulationTime \<Rightarrow> SimulationTime \<Rightarrow> guint \<Rightarrow> Controller" where
  "scenario_controller stopTime runahead workers =
     controller_initializeTimeWindows
       (fst (controller_new (scenario_config stopTime runahead workers [])))"

text \<open>
  For registration: a host entry on graph node 0 with the given address, quantity and
  bandwidths and no process; a graph whose node 0 has 1 Mbit/s in both directions; an
  empty manager; collaborators that always succeed; and the controller as
  \<^verbatim>\<open>controller_run\<close> has prepared it when it calls \<^verbatim>\<open>_controller_registerHosts\<close>, for
  the given host entries and the given draws of the address allocator.
\<close>

definition scenario_host ::
  "in_addr_t option \<Rightarrow> guint64 \<Rightarrow> guint64 option \<Rightarrow> guint64 option \<Rightarrow> HostOptions" where
  "scenario_host ip quantity down up =
     \<lparr>hostoptions_getQuantity = quantity, hostoptions_getIpAddr = ip,
      hostoptions_getNetworkNodeId = 0, hostoptions_getLogLevel = LOGLEVEL_UNSET,
      hostoptions_getHeartbeatLogLevel = LOGLEVEL_INFO, hostoptions_getHeartbeatLogInfo = 0,
      hostoptions_getHeartbeatInterval = 1000 * SIMTIME_ONE_MILLISECOND,
      hostoptions_getPcapDirectory = None, hostoptions_getBandwidthDown = down,
      hostoptions_getBandwidthUp = up, hostoptions_iterProcesses = []\<rparr>"

definition scenario_graph :: NetworkGraph where
  "scenario_graph =
     \<lparr>networkgraph_nodeBandwidthDownBits = (\<lambda>node. if node = 0 then Some 1000000 else None),
      networkgraph_nodeBandwidthUpBits = (\<lambda>node. if node = 0 then Some 1000000 else None)\<rparr>"

definition scenario_manager :: Manager where
  "scenario_manager =
     \<lparr>manager_getRawCPUFrequency = 3000000, virtualHosts = [], virtualProcesses = []\<rparr>"

definition scenario_env :: "in_addr_t list \<Rightarrow> Collaborators" where
  "scenario_env pool =
     \<lparr>networkgraph_load = (\<lambda>cfg. Some scenario_graph), ip_pool = pool,
      random_nextUInt = (\<lambda>rnd. (0, rnd)),
      manager_new = (\<lambda>cfg endTime bootstrapEndTime seed. Some scenario_manager),
      routinginfo_new = (\<lambda>g ia useShortestPath. Some RoutingInfo),
      manager_run = (\<lambda>c. c), manager_free = (\<lambda>m. 0)\<rparr>"

definition scenario_registration :: "(string \<times> HostOptions) list \<Rightarrow> in_addr_t list \<Rightarrow> Controller" where
  "scenario_registration hosts pool =
     (controller_initializeTimeWindows
        ((fst (controller_new (scenario_config (1000 * SIMTIME_ONE_MILLISECOND) 0 0 hosts)))
           \<lparr>graph_ptr := Some scenario_graph, ipAssignment := Some (ipassignment_new pool),
            dns := Some DNS\<rparr>))
       \<lparr>manager := Some scenario_manager\<rparr>"

section \<open>Properties of window advancement\<close>

lemma scenario_controller_fields:
  "endTime (scenario_controller s r w) = s"
  "minJumpTimeConfig (scenario_controller s r w) = r"
  "minJumpTime (scenario_controller s r w) = 0"
  "nextMinJumpTime (scenario_controller s r w) = 0"
  "executeWindowStart (scenario_controller s r w) = 0"
  "executeWindowEnd (scenario_controller s r 1) = controller_getMinTimeJump (scenario_controller s r 1)"
  by (simp_all add: scenario_controller_def controller_initializeTimeWindows_def
      controller_new_def scenario_config_def Let_def controller_getMinTimeJump_def)

lemma getMinTimeJump_max:
  "controller_getMinTimeJump c =
     max (if minJumpTime c > 0 then minJumpTime c else 10 * SIMTIME_ONE_MILLISECOND)
         (minJumpTimeConfig c)"
  unfolding controller_getMinTimeJump_def Let_def
  by (auto simp: max_def word_gt_0 not_less)

lemma round_eq:
  "controller_managerFinishedCurrentRound c t =
     (let c1 = (if nextMinJumpTime c \<noteq> 0 then c\<lparr>minJumpTime := nextMinJumpTime c\<rparr> else c);
          newEnd = min (t + controller_getMinTimeJump c1) (endTime c)
      in \<lparr>keepRunning = t < newEnd, windowStart = t, windowEnd = newEnd,
          controllerAfter = c1\<lparr>executeWindowStart := t, executeWindowEnd := newEnd\<rparr>\<rparr>)"
  by (auto simp add: controller_managerFinishedCurrentRound_def Let_def min_def not_less)

lemma round_fields:
  "endTime (controllerAfter (controller_managerFinishedCurrentRound c t)) = endTime c"
  "minJumpTimeConfig (controllerAfter (controller_managerFinishedCurrentRound c t)) = minJumpTimeConfig c"
  "nextMinJumpTime (controllerAfter (controller_managerFinishedCurrentRound c t)) = nextMinJumpTime c"
  "executeWindowStart (controllerAfter (controller_managerFinishedCurrentRound c t)) = t"
  "windowStart (controller_managerFinishedCurrentRound c t) = t"
  "executeWindowEnd (controllerAfter (controller_managerFinishedCurrentRound c t)) =
     windowEnd (controller_managerFinishedCurrentRound c t)"
  "keepRunning (controller_managerFinishedCurrentRound c t) =
     (t < windowEnd (controller_managerFinishedCurrentRound c t))"
  by (simp_all add: controller_managerFinishedCurrentRound_def Let_def)

lemma round_jump:
  "controller_getMinTimeJump (controllerAfter (controller_managerFinishedCurrentRound c t)) =
   controller_getMinTimeJump
     (if nextMinJumpTime c \<noteq> 0 then c\<lparr>minJumpTime := nextMinJumpTime c\<rparr> else c)"
  by (simp add: controller_managerFinishedCurrentRound_def Let_def controller_getMinTimeJump_def)

lemma round_windowEnd:
  "windowEnd (controller_managerFinishedCurrentRound c t) =
     min (t + controller_getMinTimeJump (controllerAfter (controller_managerFinishedCurrentRound c t)))
         (endTime c)"
  unfolding round_jump by (simp add: round_eq Let_def)

lemma round_end_le: "windowEnd (controller_managerFinishedCurrentRound c t) \<le> endTime c"
  by (simp add: round_windowEnd)

lemma width_word:
  fixes t j e :: "64 word"
  shows "uint (min (t + j) e) - uint t \<le> uint j"
proof -
  have "uint (min (t + j) e) \<le> uint (t + j)"
    by (simp add: word_le_def[symmetric])
  also have "\<dots> \<le> uint t + uint j"
    by (simp add: uint_word_ariths zmod_le_nonneg_dividend)
  finally show ?thesis by simp
qed

lemma round_width:
  "uint (windowEnd (controller_managerFinishedCurrentRound c t)) - uint t
     \<le> uint (controller_getMinTimeJump (controllerAfter (controller_managerFinishedCurrentRound c t)))"
  by (subst round_windowEnd) (rule width_word)

lemma update_fields:
  "controller_updateMinTimeJump c x = Inr c' \<Longrightarrow>
     endTime c' = endTime c \<and> executeWindowStart c' = executeWindowStart c
     \<and> executeWindowEnd c' = executeWindowEnd c
     \<and> minJumpTime c' = minJumpTime c \<and> minJumpTimeConfig c' = minJumpTimeConfig c"
  by (auto simp: controller_updateMinTimeJump_def Let_def split: option.splits if_splits)

lemma windows_bounded:
  "r \<in> set (manager_calls c cs) \<Longrightarrow>
      windowEnd r \<le> endTime c
      \<and> uint (windowEnd r) - uint (windowStart r) \<le> uint (controller_getMinTimeJump (controllerAfter r))
      \<and> keepRunning r = (windowStart r < windowEnd r)
      \<and> executeWindowStart (controllerAfter r) = windowStart r
      \<and> executeWindowEnd (controllerAfter r) = windowEnd r"
proof (induction c cs rule: manager_calls.induct)
  case (1 c)
  then show ?case by simp
next
  case (2 c t cs)
  show ?case
  proof (cases "r = controller_managerFinishedCurrentRound c t")
    case True
    then show ?thesis
      using round_end_le[of c t] round_width[of c t] by (simp add: round_fields)
  next
    case False
    with 2 show ?thesis by (simp add: round_fields)
  qed
next
  case (3 c x cs)
  show ?case
  proof (cases "controller_updateMinTimeJump c x")
    case (Inl a)
    with 3 show ?thesis by simp
  next
    case (Inr c')
    with 3 show ?thesis using update_fields[OF Inr] by simp
  qed
qed

text \<open>
  C2. For every controller state, \<^verbatim>\<open>getMinTimeJump()\<close> is the maximum of the committed
  topology minimum (10 ms when none is committed) and the configured runahead. With a
  runahead of 5 ms and a committed minimum of 2 ms it returns 5 ms; the same holds after
  a new controller with runahead 5 ms observes 2 ms and the next round commits it.
\<close>

theorem getMinTimeJump_is_max:
  "controller_getMinTimeJump c =
     max (if minJumpTime c > 0 then minJumpTime c else 10 * SIMTIME_ONE_MILLISECOND)
         (minJumpTimeConfig c)
   \<and> controller_getMinTimeJump
         (c\<lparr>minJumpTimeConfig := 5 * SIMTIME_ONE_MILLISECOND,
            minJumpTime := 2 * SIMTIME_ONE_MILLISECOND\<rparr>) = 5 * SIMTIME_ONE_MILLISECOND
   \<and> (case controller_updateMinTimeJump
              (fst (controller_new (scenario_config s (5 * SIMTIME_ONE_MILLISECOND) w hs))) 2 of
         Inl a \<Rightarrow> False
       | Inr c1 \<Rightarrow>
           controller_getMinTimeJump
             (controllerAfter (controller_managerFinishedCurrentRound c1 t))
           = 5 * SIMTIME_ONE_MILLISECOND)"
proof (intro conjI)
  show "controller_getMinTimeJump c =
     max (if minJumpTime c > 0 then minJumpTime c else 10 * SIMTIME_ONE_MILLISECOND)
         (minJumpTimeConfig c)"
    by (rule getMinTimeJump_max)
  show "controller_getMinTimeJump
         (c\<lparr>minJumpTimeConfig := 5 * SIMTIME_ONE_MILLISECOND,
            minJumpTime := 2 * SIMTIME_ONE_MILLISECOND\<rparr>) = 5 * SIMTIME_ONE_MILLISECOND"
    by (simp add: getMinTimeJump_max SIMTIME_ONE_MILLISECOND_def)
  have "gdouble_to_guint64 2 = Some 2"
    by (simp add: gdouble_to_guint64_def)
  then show "case controller_updateMinTimeJump
              (fst (controller_new (scenario_config s (5 * SIMTIME_ONE_MILLISECOND) w hs))) 2 of
         Inl a \<Rightarrow> False
       | Inr c1 \<Rightarrow>
           controller_getMinTimeJump
             (controllerAfter (controller_managerFinishedCurrentRound c1 t))
           = 5 * SIMTIME_ONE_MILLISECOND"
    by (simp add: controller_updateMinTimeJump_def controller_new_def scenario_config_def
        round_jump SIMTIME_ONE_MILLISECOND_def)
      (simp add: controller_getMinTimeJump_def)
qed

lemma round_lookahead_30:
  assumes "nextMinJumpTime c = 30 * SIMTIME_ONE_MILLISECOND" "minJumpTimeConfig c = 0"
    "endTime c = 100 * SIMTIME_ONE_MILLISECOND"
  shows "controller_managerFinishedCurrentRound c t =
    \<lparr>keepRunning = t < min (t + 30 * SIMTIME_ONE_MILLISECOND) (100 * SIMTIME_ONE_MILLISECOND),
     windowStart = t,
     windowEnd = min (t + 30 * SIMTIME_ONE_MILLISECOND) (100 * SIMTIME_ONE_MILLISECOND),
     controllerAfter = c\<lparr>minJumpTime := 30 * SIMTIME_ONE_MILLISECOND, executeWindowStart := t,
       executeWindowEnd := min (t + 30 * SIMTIME_ONE_MILLISECOND) (100 * SIMTIME_ONE_MILLISECOND)\<rparr>\<rparr>"
  using assms by (simp add: round_eq getMinTimeJump_max Let_def SIMTIME_ONE_MILLISECOND_def)

lemma uint_min: "uint (min a b) = min (uint a) (uint b)" for a b :: "'a::len word"
  by (simp add: min_def word_le_def)

lemma round_windowEnd_uint:
  "uint (windowEnd (controller_managerFinishedCurrentRound c t)) =
     min ((uint t + uint (controller_getMinTimeJump
                            (controllerAfter (controller_managerFinishedCurrentRound c t))))
            mod 2 ^ 64)
         (uint (endTime c))"
  by (subst round_windowEnd) (simp add: uint_min uint_word_ariths)

text \<open>
  C1, as amended. Every call of \<^verbatim>\<open>controller_managerFinishedCurrentRound\<close> first commits
  a non-zero \<^verbatim>\<open>nextMinJumpTime\<close> into \<^verbatim>\<open>minJumpTime\<close>, then stores and returns the
  window that starts at \<^verbatim>\<open>minNextEventTime\<close> and ends at the minimum of \<^verbatim>\<open>endTime\<close> and
  the sum \<^verbatim>\<open>minNextEventTime + getMinTimeJump()\<close> taken modulo \<open>2 ^ 64\<close>, and returns
  whether the start is before the end. The end is the minimum of \<^verbatim>\<open>endTime\<close> and the
  sum itself whenever the sum is below \<open>2 ^ 64\<close>. With an end time of 100 ms and a
  lookahead of 30 ms, the calls reporting 0, 30, 60, 90 and 100 ms give the window ends
  30, 60, 90, 100 and 100 ms, and only the last returns false.
\<close>

theorem managerFinishedCurrentRound_window:
  "controller_managerFinishedCurrentRound c t =
     (let c1 = (if nextMinJumpTime c \<noteq> 0 then c\<lparr>minJumpTime := nextMinJumpTime c\<rparr> else c);
          newEnd = min (t + controller_getMinTimeJump c1) (endTime c)
      in \<lparr>keepRunning = t < newEnd, windowStart = t, windowEnd = newEnd,
          controllerAfter = c1\<lparr>executeWindowStart := t, executeWindowEnd := newEnd\<rparr>\<rparr>)
   \<and> uint (windowEnd (controller_managerFinishedCurrentRound c t)) =
       min ((uint t + uint (controller_getMinTimeJump
                              (controllerAfter (controller_managerFinishedCurrentRound c t))))
              mod 2 ^ 64)
           (uint (endTime c))
   \<and> (uint t + uint (controller_getMinTimeJump
                        (controllerAfter (controller_managerFinishedCurrentRound c t))) < 2 ^ 64
       \<longrightarrow> uint (windowEnd (controller_managerFinishedCurrentRound c t)) =
             min (uint t + uint (controller_getMinTimeJump
                                   (controllerAfter (controller_managerFinishedCurrentRound c t))))
                 (uint (endTime c)))
   \<and> map (\<lambda>r. (windowEnd r, keepRunning r))
       (manager_calls
          (c\<lparr>endTime := 100 * SIMTIME_ONE_MILLISECOND,
             nextMinJumpTime := 30 * SIMTIME_ONE_MILLISECOND, minJumpTimeConfig := 0\<rparr>)
          [ManagerFinishedCurrentRound 0,
           ManagerFinishedCurrentRound (30 * SIMTIME_ONE_MILLISECOND),
           ManagerFinishedCurrentRound (60 * SIMTIME_ONE_MILLISECOND),
           ManagerFinishedCurrentRound (90 * SIMTIME_ONE_MILLISECOND),
           ManagerFinishedCurrentRound (100 * SIMTIME_ONE_MILLISECOND)])
     = [(30 * SIMTIME_ONE_MILLISECOND, True), (60 * SIMTIME_ONE_MILLISECOND, True),
        (90 * SIMTIME_ONE_MILLISECOND, True), (100 * SIMTIME_ONE_MILLISECOND, True),
        (100 * SIMTIME_ONE_MILLISECOND, False)]"
proof (intro conjI impI)
  show "controller_managerFinishedCurrentRound c t =
     (let c1 = (if nextMinJumpTime c \<noteq> 0 then c\<lparr>minJumpTime := nextMinJumpTime c\<rparr> else c);
          newEnd = min (t + controller_getMinTimeJump c1) (endTime c)
      in \<lparr>keepRunning = t < newEnd, windowStart = t, windowEnd = newEnd,
          controllerAfter = c1\<lparr>executeWindowStart := t, executeWindowEnd := newEnd\<rparr>\<rparr>)"
    by (rule round_eq)
next
  show "uint (windowEnd (controller_managerFinishedCurrentRound c t)) =
       min ((uint t + uint (controller_getMinTimeJump
                              (controllerAfter (controller_managerFinishedCurrentRound c t))))
              mod 2 ^ 64)
           (uint (endTime c))"
    by (rule round_windowEnd_uint)
next
  assume "uint t + uint (controller_getMinTimeJump
                        (controllerAfter (controller_managerFinishedCurrentRound c t))) < 2 ^ 64"
  moreover have "0 \<le> uint t + uint (controller_getMinTimeJump
                        (controllerAfter (controller_managerFinishedCurrentRound c t)))"
    by simp
  ultimately have "(uint t + uint (controller_getMinTimeJump
                        (controllerAfter (controller_managerFinishedCurrentRound c t)))) mod 2 ^ 64
      = uint t + uint (controller_getMinTimeJump
                        (controllerAfter (controller_managerFinishedCurrentRound c t)))"
    by simp
  then show "uint (windowEnd (controller_managerFinishedCurrentRound c t)) =
             min (uint t + uint (controller_getMinTimeJump
                                   (controllerAfter (controller_managerFinishedCurrentRound c t))))
                 (uint (endTime c))"
    using round_windowEnd_uint[of c t] by simp
next
  show "map (\<lambda>r. (windowEnd r, keepRunning r))
       (manager_calls
          (c\<lparr>endTime := 100 * SIMTIME_ONE_MILLISECOND,
             nextMinJumpTime := 30 * SIMTIME_ONE_MILLISECOND, minJumpTimeConfig := 0\<rparr>)
          [ManagerFinishedCurrentRound 0,
           ManagerFinishedCurrentRound (30 * SIMTIME_ONE_MILLISECOND),
           ManagerFinishedCurrentRound (60 * SIMTIME_ONE_MILLISECOND),
           ManagerFinishedCurrentRound (90 * SIMTIME_ONE_MILLISECOND),
           ManagerFinishedCurrentRound (100 * SIMTIME_ONE_MILLISECOND)])
     = [(30 * SIMTIME_ONE_MILLISECOND, True), (60 * SIMTIME_ONE_MILLISECOND, True),
        (90 * SIMTIME_ONE_MILLISECOND, True), (100 * SIMTIME_ONE_MILLISECOND, True),
        (100 * SIMTIME_ONE_MILLISECOND, False)]"
    by (simp add: round_lookahead_30 SIMTIME_ONE_MILLISECOND_def)
qed

lemma scenario_round_jump:
  "controller_getMinTimeJump (controllerAfter (controller_managerFinishedCurrentRound
        (scenario_controller s r w) t))
     = max (10 * SIMTIME_ONE_MILLISECOND) r"
  by (simp add: round_jump scenario_controller_fields)
    (simp add: getMinTimeJump_max scenario_controller_fields)

theorem managerFinishedCurrentRound_window_witness:
  "uint (30 * SIMTIME_ONE_MILLISECOND)
     + uint (controller_getMinTimeJump (controllerAfter (controller_managerFinishedCurrentRound
         (scenario_controller (100 * SIMTIME_ONE_MILLISECOND) (30 * SIMTIME_ONE_MILLISECOND) 1)
         (30 * SIMTIME_ONE_MILLISECOND)))) < 2 ^ 64
   \<and> uint (windowEnd (controller_managerFinishedCurrentRound
         (scenario_controller (100 * SIMTIME_ONE_MILLISECOND) (30 * SIMTIME_ONE_MILLISECOND) 1)
         (30 * SIMTIME_ONE_MILLISECOND))) = 60000000"
proof -
  let ?c = "scenario_controller (100 * SIMTIME_ONE_MILLISECOND) (30 * SIMTIME_ONE_MILLISECOND) 1"
  let ?t = "30 * SIMTIME_ONE_MILLISECOND"
  have j: "controller_getMinTimeJump (controllerAfter (controller_managerFinishedCurrentRound ?c ?t))
      = 30000000"
    unfolding scenario_round_jump by (simp add: SIMTIME_ONE_MILLISECOND_def)
  have h: "uint ?t + uint (controller_getMinTimeJump
      (controllerAfter (controller_managerFinishedCurrentRound ?c ?t))) < 2 ^ 64"
    unfolding j by (simp add: SIMTIME_ONE_MILLISECOND_def)
  have e: "endTime ?c = 100000000"
    by (simp add: scenario_controller_fields SIMTIME_ONE_MILLISECOND_def)
  from managerFinishedCurrentRound_window[of ?c ?t, THEN conjunct2, THEN conjunct2, THEN conjunct1] h
  have "uint (windowEnd (controller_managerFinishedCurrentRound ?c ?t)) =
     min (uint ?t + uint (controller_getMinTimeJump
        (controllerAfter (controller_managerFinishedCurrentRound ?c ?t)))) (uint (endTime ?c))"
    by blast
  then have "uint (windowEnd (controller_managerFinishedCurrentRound ?c ?t)) = 60000000"
    unfolding j e by (simp add: SIMTIME_ONE_MILLISECOND_def)
  with h show ?thesis by (intro conjI)
qed

text \<open>
  With the sum taken as a number the claim fails when it passes \<open>2 ^ 64\<close>: with an end
  time of 100 ms and the default lookahead of 10 ms, a report of \<^verbatim>\<open>G_MAXUINT64 - 1\<close>
  gives the window end 9999998 ns, where the minimum of the sum and the end time is
  100 ms.
\<close>

theorem managerFinishedCurrentRound_window_counterexample:
  "uint (windowEnd (controller_managerFinishedCurrentRound
         (scenario_controller (100 * SIMTIME_ONE_MILLISECOND) 0 1) (G_MAXUINT64 - 1))) = 9999998
   \<and> min (uint (G_MAXUINT64 - 1)
          + uint (controller_getMinTimeJump (controllerAfter (controller_managerFinishedCurrentRound
              (scenario_controller (100 * SIMTIME_ONE_MILLISECOND) 0 1) (G_MAXUINT64 - 1)))))
         (uint (endTime (scenario_controller (100 * SIMTIME_ONE_MILLISECOND) 0 1))) = 100000000
   \<and> uint (windowEnd (controller_managerFinishedCurrentRound
         (scenario_controller (100 * SIMTIME_ONE_MILLISECOND) 0 1) (G_MAXUINT64 - 1)))
      \<noteq> min (uint (G_MAXUINT64 - 1)
          + uint (controller_getMinTimeJump (controllerAfter (controller_managerFinishedCurrentRound
              (scenario_controller (100 * SIMTIME_ONE_MILLISECOND) 0 1) (G_MAXUINT64 - 1)))))
         (uint (endTime (scenario_controller (100 * SIMTIME_ONE_MILLISECOND) 0 1)))"
proof -
  let ?c = "scenario_controller (100 * SIMTIME_ONE_MILLISECOND) 0 1"
  have j: "controller_getMinTimeJump (controllerAfter (controller_managerFinishedCurrentRound ?c
        (G_MAXUINT64 - 1))) = 10000000"
    unfolding scenario_round_jump by (simp add: SIMTIME_ONE_MILLISECOND_def)
  have w: "windowEnd (controller_managerFinishedCurrentRound ?c (G_MAXUINT64 - 1)) = 9999998"
    by (simp add: round_eq scenario_controller_fields getMinTimeJump_max Let_def
        SIMTIME_ONE_MILLISECOND_def G_MAXUINT64_def)
  have e: "endTime ?c = 100000000"
    by (simp add: scenario_controller_fields SIMTIME_ONE_MILLISECOND_def)
  show ?thesis
    unfolding j w e by (simp add: G_MAXUINT64_def)
qed

lemma sorted_starts:
  "workers_contract c cs \<Longrightarrow> executeWindowStart c \<le> executeWindowEnd c \<Longrightarrow>
   sorted (executeWindowStart c # map windowStart (manager_calls c cs))"
proof (induction c cs rule: manager_calls.induct)
  case (1 c)
  then show ?case by simp
next
  case (2 c t cs)
  let ?r = "controller_managerFinishedCurrentRound c t"
  let ?c' = "controllerAfter ?r"
  from 2 have le: "executeWindowStart c \<le> t" by auto
  show ?case
  proof (cases "keepRunning ?r")
    case True
    then have "executeWindowStart ?c' \<le> executeWindowEnd ?c'"
      by (simp add: round_fields)
    with 2 True have "sorted (executeWindowStart ?c' # map windowStart (manager_calls ?c' cs))"
      by simp
    then have "sorted (t # map windowStart (manager_calls ?c' cs))"
      by (simp only: round_fields)
    with le True show ?thesis
      by (simp add: round_fields) (meson order_trans)
  next
    case False
    with le show ?thesis by (simp add: round_fields)
  qed
next
  case (3 c x cs)
  show ?case
  proof (cases "controller_updateMinTimeJump c x")
    case (Inl a)
    then show ?thesis by simp
  next
    case (Inr c')
    with 3 show ?thesis using update_fields[OF Inr] by simp
  qed
qed

lemma sorted_returned_starts:
  "workers_contract c cs \<Longrightarrow> sorted (map windowStart (manager_calls c cs))"
proof (induction c cs rule: manager_calls.induct)
  case (1 c)
  then show ?case by simp
next
  case (2 c t cs)
  let ?r = "controller_managerFinishedCurrentRound c t"
  let ?c' = "controllerAfter ?r"
  show ?case
  proof (cases "keepRunning ?r")
    case True
    then have wf: "executeWindowStart ?c' \<le> executeWindowEnd ?c'"
      by (simp add: round_fields)
    from 2(2) True have "workers_contract ?c' cs" by simp
    from sorted_starts[OF this wf] True show ?thesis
      by (simp add: round_fields)
  next
    case False
    then show ?thesis by simp
  qed
next
  case (3 c x cs)
  show ?case
  proof (cases "controller_updateMinTimeJump c x")
    case (Inl a)
    then show ?thesis by simp
  next
    case (Inr c')
    with 3 show ?thesis by simp
  qed
qed

lemma initial_window_start: "executeWindowStart (controller_initializeTimeWindows c) = 0"
  by (simp add: controller_initializeTimeWindows_def Let_def)

text \<open>
  C3. Across every sequence of calls the manager makes in which each reported
  \<^verbatim>\<open>minNextEventTime\<close> is at least the previous window end, the window start never
  decreases from one call to the next, nor from the initial window of
  \<^verbatim>\<open>_controller_initializeTimeWindows\<close> to the first call. Every window end of the
  sequence is at most \<^verbatim>\<open>endTime\<close>, and the end minus the start (as integers) is at most
  \<^verbatim>\<open>getMinTimeJump()\<close>, so the window is never wider than the lookahead and is narrower
  only when \<^verbatim>\<open>endTime\<close> cuts it; the last two hold for a single call in any state.
\<close>

theorem window_monotonicity:
  "(workers_contract c cs \<longrightarrow> sorted (map windowStart (manager_calls c cs)))
   \<and> (workers_contract (controller_initializeTimeWindows c) cs \<longrightarrow>
        sorted (executeWindowStart (controller_initializeTimeWindows c)
                # map windowStart (manager_calls (controller_initializeTimeWindows c) cs)))
   \<and> (\<forall>r \<in> set (manager_calls c cs).
        windowEnd r \<le> endTime c
        \<and> uint (windowEnd r) - uint (windowStart r)
            \<le> uint (controller_getMinTimeJump (controllerAfter r))
        \<and> (keepRunning r \<longrightarrow> windowStart r \<le> windowEnd r)
        \<and> executeWindowStart (controllerAfter r) = windowStart r
        \<and> executeWindowEnd (controllerAfter r) = windowEnd r)
   \<and> windowEnd (controller_managerFinishedCurrentRound c t) \<le> endTime c
   \<and> uint (windowEnd (controller_managerFinishedCurrentRound c t))
        - uint (windowStart (controller_managerFinishedCurrentRound c t))
       \<le> uint (controller_getMinTimeJump
                 (controllerAfter (controller_managerFinishedCurrentRound c t)))"
proof (intro conjI impI)
  assume "workers_contract c cs"
  then show "sorted (map windowStart (manager_calls c cs))"
    by (rule sorted_returned_starts)
next
  assume "workers_contract (controller_initializeTimeWindows c) cs"
  then have "sorted (map windowStart (manager_calls (controller_initializeTimeWindows c) cs))"
    by (rule sorted_returned_starts)
  then show "sorted (executeWindowStart (controller_initializeTimeWindows c)
                # map windowStart (manager_calls (controller_initializeTimeWindows c) cs))"
    by (simp add: initial_window_start)
next
  show "\<forall>r \<in> set (manager_calls c cs).
        windowEnd r \<le> endTime c
        \<and> uint (windowEnd r) - uint (windowStart r)
            \<le> uint (controller_getMinTimeJump (controllerAfter r))
        \<and> (keepRunning r \<longrightarrow> windowStart r \<le> windowEnd r)
        \<and> executeWindowStart (controllerAfter r) = windowStart r
        \<and> executeWindowEnd (controllerAfter r) = windowEnd r"
    using windows_bounded[of _ c cs] by auto
next
  show "windowEnd (controller_managerFinishedCurrentRound c t) \<le> endTime c"
    by (rule round_end_le)
next
  show "uint (windowEnd (controller_managerFinishedCurrentRound c t))
        - uint (windowStart (controller_managerFinishedCurrentRound c t))
       \<le> uint (controller_getMinTimeJump
                 (controllerAfter (controller_managerFinishedCurrentRound c t)))"
    using round_width[of c t] by (simp add: round_fields)
qed

lemma round_runahead_30:
  assumes "nextMinJumpTime c = 0" "minJumpTime c = 0"
    "minJumpTimeConfig c = 30 * SIMTIME_ONE_MILLISECOND"
    "endTime c = 100 * SIMTIME_ONE_MILLISECOND"
  shows "controller_managerFinishedCurrentRound c t =
    \<lparr>keepRunning = t < min (t + 30 * SIMTIME_ONE_MILLISECOND) (100 * SIMTIME_ONE_MILLISECOND),
     windowStart = t,
     windowEnd = min (t + 30 * SIMTIME_ONE_MILLISECOND) (100 * SIMTIME_ONE_MILLISECOND),
     controllerAfter = c\<lparr>executeWindowStart := t,
       executeWindowEnd := min (t + 30 * SIMTIME_ONE_MILLISECOND) (100 * SIMTIME_ONE_MILLISECOND)\<rparr>\<rparr>"
  using assms by (simp add: round_eq getMinTimeJump_max Let_def SIMTIME_ONE_MILLISECOND_def)

theorem window_monotonicity_witness:
  "workers_contract
     (controller_initializeTimeWindows (fst (controller_new
        (scenario_config (100 * SIMTIME_ONE_MILLISECOND) (30 * SIMTIME_ONE_MILLISECOND) 1 []))))
     [ManagerFinishedCurrentRound (30 * SIMTIME_ONE_MILLISECOND),
      ManagerFinishedCurrentRound (60 * SIMTIME_ONE_MILLISECOND),
      ManagerFinishedCurrentRound (90 * SIMTIME_ONE_MILLISECOND),
      ManagerFinishedCurrentRound (100 * SIMTIME_ONE_MILLISECOND)]
   \<and> map windowStart (manager_calls
     (controller_initializeTimeWindows (fst (controller_new
        (scenario_config (100 * SIMTIME_ONE_MILLISECOND) (30 * SIMTIME_ONE_MILLISECOND) 1 []))))
     [ManagerFinishedCurrentRound (30 * SIMTIME_ONE_MILLISECOND),
      ManagerFinishedCurrentRound (60 * SIMTIME_ONE_MILLISECOND),
      ManagerFinishedCurrentRound (90 * SIMTIME_ONE_MILLISECOND),
      ManagerFinishedCurrentRound (100 * SIMTIME_ONE_MILLISECOND)])
     = [30 * SIMTIME_ONE_MILLISECOND, 60 * SIMTIME_ONE_MILLISECOND,
        90 * SIMTIME_ONE_MILLISECOND, 100 * SIMTIME_ONE_MILLISECOND]
   \<and> sorted (executeWindowStart
        (controller_initializeTimeWindows (fst (controller_new
          (scenario_config (100 * SIMTIME_ONE_MILLISECOND) (30 * SIMTIME_ONE_MILLISECOND) 1 []))))
       # map windowStart (manager_calls
     (controller_initializeTimeWindows (fst (controller_new
        (scenario_config (100 * SIMTIME_ONE_MILLISECOND) (30 * SIMTIME_ONE_MILLISECOND) 1 []))))
     [ManagerFinishedCurrentRound (30 * SIMTIME_ONE_MILLISECOND),
      ManagerFinishedCurrentRound (60 * SIMTIME_ONE_MILLISECOND),
      ManagerFinishedCurrentRound (90 * SIMTIME_ONE_MILLISECOND),
      ManagerFinishedCurrentRound (100 * SIMTIME_ONE_MILLISECOND)]))
   \<and> list_all (\<lambda>r. windowEnd r \<le> 100 * SIMTIME_ONE_MILLISECOND) (manager_calls
     (controller_initializeTimeWindows (fst (controller_new
        (scenario_config (100 * SIMTIME_ONE_MILLISECOND) (30 * SIMTIME_ONE_MILLISECOND) 1 []))))
     [ManagerFinishedCurrentRound (30 * SIMTIME_ONE_MILLISECOND),
      ManagerFinishedCurrentRound (60 * SIMTIME_ONE_MILLISECOND),
      ManagerFinishedCurrentRound (90 * SIMTIME_ONE_MILLISECOND),
      ManagerFinishedCurrentRound (100 * SIMTIME_ONE_MILLISECOND)])"
proof -
  let ?fresh = "fst (controller_new
        (scenario_config (100 * SIMTIME_ONE_MILLISECOND) (30 * SIMTIME_ONE_MILLISECOND) 1 []))"
  let ?c = "controller_initializeTimeWindows ?fresh"
  let ?cs = "[ManagerFinishedCurrentRound (30 * SIMTIME_ONE_MILLISECOND),
      ManagerFinishedCurrentRound (60 * SIMTIME_ONE_MILLISECOND),
      ManagerFinishedCurrentRound (90 * SIMTIME_ONE_MILLISECOND),
      ManagerFinishedCurrentRound (100 * SIMTIME_ONE_MILLISECOND)]"
  have f: "nextMinJumpTime ?c = 0" "minJumpTime ?c = 0"
    "minJumpTimeConfig ?c = 30 * SIMTIME_ONE_MILLISECOND"
    "endTime ?c = 100 * SIMTIME_ONE_MILLISECOND"
    "executeWindowEnd ?c = 30 * SIMTIME_ONE_MILLISECOND"
    using scenario_controller_fields[of "100 * SIMTIME_ONE_MILLISECOND" "30 * SIMTIME_ONE_MILLISECOND"]
    by (simp_all add: scenario_controller_def getMinTimeJump_max SIMTIME_ONE_MILLISECOND_def)
  have h1: "workers_contract ?c ?cs"
    by (simp add: round_runahead_30 f)
  have st: "map windowStart (manager_calls ?c ?cs)
     = [30 * SIMTIME_ONE_MILLISECOND, 60 * SIMTIME_ONE_MILLISECOND,
        90 * SIMTIME_ONE_MILLISECOND, 100 * SIMTIME_ONE_MILLISECOND]"
    by (simp add: round_runahead_30 f) (simp add: SIMTIME_ONE_MILLISECOND_def)
  from h1 window_monotonicity [of ?fresh ?cs]
  have s: "sorted (executeWindowStart ?c # map windowStart (manager_calls ?c ?cs))"
    by blast
  from window_monotonicity [of ?c ?cs]
  have "\<forall>r \<in> set (manager_calls ?c ?cs). windowEnd r \<le> endTime ?c"
    by blast
  then have b: "list_all (\<lambda>r. windowEnd r \<le> 100 * SIMTIME_ONE_MILLISECOND) (manager_calls ?c ?cs)"
    unfolding f(4) list_all_iff .
  from h1 st s b show ?thesis by (intro conjI)
qed






lemma clamp_no_overflow:
  fixes t j e :: "64 word"
  assumes "e < t" "unat t + unat j < 2 ^ 64"
  shows "min (t + j) e = e"
proof -
  have "unat t + unat j < 2 ^ LENGTH(64)"
    using assms(2) by simp
  then have "unat (t + j) = unat t + unat j"
    by (rule unat_add_lem[THEN iffD1])
  moreover have "unat e < unat t" using assms(1) by (simp add: word_less_nat_alt)
  ultimately have "unat e \<le> unat (t + j)" by simp
  then have "e \<le> t + j" by (simp add: word_le_nat_alt)
  then show ?thesis by (simp add: min_def)
qed

text \<open>
  C10, as amended. For every \<^verbatim>\<open>minNextEventTime\<close> greater than \<^verbatim>\<open>endTime\<close>, the call
  stores and returns the same window, whose start is \<^verbatim>\<open>minNextEventTime\<close> and whose end
  is at most \<^verbatim>\<open>endTime\<close>, so the start exceeds the end, and \<^verbatim>\<open>keepRunning\<close> is false.
  The end is \<^verbatim>\<open>endTime\<close> itself whenever \<^verbatim>\<open>minNextEventTime + getMinTimeJump()\<close> fits
  64 bits.
\<close>

theorem round_past_endTime:
  assumes "endTime c < t"
  shows "windowStart (controller_managerFinishedCurrentRound c t) = t
    \<and> windowEnd (controller_managerFinishedCurrentRound c t) \<le> endTime c
    \<and> windowEnd (controller_managerFinishedCurrentRound c t)
        < windowStart (controller_managerFinishedCurrentRound c t)
    \<and> \<not> keepRunning (controller_managerFinishedCurrentRound c t)
    \<and> executeWindowStart (controllerAfter (controller_managerFinishedCurrentRound c t)) = t
    \<and> executeWindowEnd (controllerAfter (controller_managerFinishedCurrentRound c t))
        = windowEnd (controller_managerFinishedCurrentRound c t)
    \<and> (unat t
         + unat (controller_getMinTimeJump
                   (controllerAfter (controller_managerFinishedCurrentRound c t))) < 2 ^ 64
       \<longrightarrow> windowEnd (controller_managerFinishedCurrentRound c t) = endTime c)"
proof -
  let ?r = "controller_managerFinishedCurrentRound c t"
  have le: "windowEnd ?r \<le> endTime c" by (rule round_end_le)
  with assms have lt: "windowEnd ?r < t" by simp
  have "unat t + unat (controller_getMinTimeJump (controllerAfter ?r)) < 2 ^ 64
         \<longrightarrow> windowEnd ?r = endTime c"
    using clamp_no_overflow[OF assms] by (subst round_windowEnd) simp
  with le lt show ?thesis by (simp add: round_fields)
qed

theorem round_past_endTime_witness:
  "endTime (scenario_controller (100 * SIMTIME_ONE_MILLISECOND) 0 1) < 150 * SIMTIME_ONE_MILLISECOND
   \<and> windowStart (controller_managerFinishedCurrentRound
        (scenario_controller (100 * SIMTIME_ONE_MILLISECOND) 0 1) (150 * SIMTIME_ONE_MILLISECOND))
      = 150 * SIMTIME_ONE_MILLISECOND
   \<and> windowEnd (controller_managerFinishedCurrentRound
        (scenario_controller (100 * SIMTIME_ONE_MILLISECOND) 0 1) (150 * SIMTIME_ONE_MILLISECOND))
      = 100 * SIMTIME_ONE_MILLISECOND
   \<and> \<not> keepRunning (controller_managerFinishedCurrentRound
        (scenario_controller (100 * SIMTIME_ONE_MILLISECOND) 0 1) (150 * SIMTIME_ONE_MILLISECOND))"
proof -
  have h: "endTime (scenario_controller (100 * SIMTIME_ONE_MILLISECOND) 0 1)
             < 150 * SIMTIME_ONE_MILLISECOND"
    by (simp add: scenario_controller_fields SIMTIME_ONE_MILLISECOND_def)
  have j: "controller_getMinTimeJump (controllerAfter (controller_managerFinishedCurrentRound
        (scenario_controller (100 * SIMTIME_ONE_MILLISECOND) 0 1) (150 * SIMTIME_ONE_MILLISECOND)))
      = 10 * SIMTIME_ONE_MILLISECOND"
    by (simp add: round_jump scenario_controller_fields)
      (simp add: getMinTimeJump_max scenario_controller_fields)
  show ?thesis
    using h round_past_endTime [OF h] unfolding j
    by (simp add: scenario_controller_fields SIMTIME_ONE_MILLISECOND_def)
qed

text \<open>
  When the sum wraps around, the window end is the wrapped sum and not \<^verbatim>\<open>endTime\<close>: with
  an end time of 100 ms and the default lookahead of 10 ms, a report of
  \<^verbatim>\<open>G_MAXUINT64 - 1\<close> gives the window end 9999998 ns.
\<close>

theorem round_past_endTime_counterexample:
  "endTime (scenario_controller (100 * SIMTIME_ONE_MILLISECOND) 0 1) < G_MAXUINT64 - 1
   \<and> windowEnd (controller_managerFinishedCurrentRound
        (scenario_controller (100 * SIMTIME_ONE_MILLISECOND) 0 1) (G_MAXUINT64 - 1))
      = 9999998
   \<and> windowEnd (controller_managerFinishedCurrentRound
        (scenario_controller (100 * SIMTIME_ONE_MILLISECOND) 0 1) (G_MAXUINT64 - 1))
      \<noteq> endTime (scenario_controller (100 * SIMTIME_ONE_MILLISECOND) 0 1)"
  by (simp add: round_eq scenario_controller_fields getMinTimeJump_max Let_def
      SIMTIME_ONE_MILLISECOND_def G_MAXUINT64_def)


section \<open>Properties of host registration\<close>

lemma for_each_append:
  "for_each f (xs @ ys) s =
     (case for_each f xs s of
        (Success, s') \<Rightarrow> for_each f ys s'
      | (Failure e, s') \<Rightarrow> (Failure e, s')
      | (Aborted a, s') \<Rightarrow> (Aborted a, s'))"
  by (induction xs arbitrary: s) (auto split: prod.splits status.splits)

lemma for_each_invariant:
  assumes "P s"
    and "\<And>x s. x \<in> set xs \<Longrightarrow> P s \<Longrightarrow> P (snd (f x s)) \<and> R (fst (f x s))"
    and "R Success"
  shows "P (snd (for_each f xs s)) \<and> R (fst (for_each f xs s))"
  using assms
proof (induction xs arbitrary: s)
  case Nil
  then show ?case by simp
next
  case (Cons x xs)
  have step: "P (snd (f x s)) \<and> R (fst (f x s))"
    using Cons.prems by simp
  show ?case
  proof (cases "f x s")
    case (Pair st s')
    show ?thesis
    proof (cases st)
      case Success
      with Pair step have "P s'" by simp
      then have "P (snd (for_each f xs s')) \<and> R (fst (for_each f xs s'))"
        using Cons.prems by (intro Cons.IH) auto
      with Pair Success show ?thesis by simp
    next
      case (Failure e)
      with Pair step show ?thesis by simp
    next
      case (Aborted a)
      with Pair step show ?thesis by simp
    qed
  qed
qed

lemma for_each_Success_Cons:
  "for_each f (x # xs) s = (Success, s') \<longleftrightarrow>
     (\<exists>s1. f x s = (Success, s1) \<and> for_each f xs s1 = (Success, s'))"
  by (auto split: prod.splits status.splits)

lemma for_each_Success_append:
  "for_each f (xs @ ys) s = (Success, s') \<longleftrightarrow>
     (\<exists>s1. for_each f xs s = (Success, s1) \<and> for_each f ys s1 = (Success, s'))"
  by (induction xs arbitrary: s) (auto simp: for_each_Success_Cons simp del: for_each.simps(2))

lemma for_each_Success_invariant:
  assumes "for_each f xs s = (Success, s')"
    and "Q s"
    and "\<And>y s s'. y \<in> set xs \<Longrightarrow> Q s \<Longrightarrow> f y s = (Success, s') \<Longrightarrow> Q s'"
  shows "Q s'"
  using assms
proof (induction xs arbitrary: s)
  case Nil
  then show ?case by simp
next
  case (Cons y ys)
  from Cons.prems(1) obtain s1 where y: "f y s = (Success, s1)"
    and rest: "for_each f ys s1 = (Success, s')"
    by (auto simp: for_each_Success_Cons simp del: for_each.simps(2))
  have "Q s1" using Cons.prems(3)[of y s s1] y Cons.prems(2) by simp
  from rest this show ?case
  proof (rule Cons.IH)
    fix z t t'
    assume "z \<in> set ys" "Q t" "f z t = (Success, t')"
    then show "Q t'" using Cons.prems(3)[of z t t'] by simp
  qed
qed

lemma for_each_reaches:
  assumes "for_each f xs s = (Success, s')"
    and "x \<in> set xs"
    and "P s"
    and "\<And>y s s'. y \<in> set xs \<Longrightarrow> P s \<Longrightarrow> f y s = (Success, s') \<Longrightarrow> P s'"
    and "\<And>s s'. P s \<Longrightarrow> f x s = (Success, s') \<Longrightarrow> Q s'"
    and "\<And>y s s'. y \<in> set xs \<Longrightarrow> P s \<Longrightarrow> Q s \<Longrightarrow> f y s = (Success, s') \<Longrightarrow> Q s'"
  shows "Q s'"
proof -
  from assms(2) obtain pre post where xs: "xs = pre @ x # post"
    by (auto dest: split_list)
  with assms(1) obtain s1 s2 where pre: "for_each f pre s = (Success, s1)"
    and x: "f x s1 = (Success, s2)"
    and post: "for_each f post s2 = (Success, s')"
    by (auto simp: for_each_Success_append for_each_Success_Cons simp del: for_each.simps(2))
  from pre assms(3) have "P s1"
  proof (rule for_each_Success_invariant)
    fix z t t'
    assume "z \<in> set pre" "P t" "f z t = (Success, t')"
    then show "P t'" using assms(4)[of z t t'] xs by simp
  qed
  with x have "P s2 \<and> Q s2"
    using assms(4)[of x s1 s2] assms(5)[of s1 s2] xs by simp
  with post have "P s' \<and> Q s'"
  proof (rule for_each_Success_invariant)
    fix z t t'
    assume "z \<in> set post" "P t \<and> Q t" "f z t = (Success, t')"
    then show "P t' \<and> Q t'" using assms(4)[of z t t'] assms(6)[of z t t'] xs by simp
  qed
  then show ?thesis by simp
qed

lemma funpow_addProcess_hosts:
  "virtualHosts (((\<lambda>m. manager_addNewVirtualProcess m h p a b argv env) ^^ n) m) = virtualHosts m"
  by (induction n) (simp_all add: manager_addNewVirtualProcess_def)

lemma process_callback_keeps:
  "ipAssignment (snd (controller_registerProcessCallback h proc c)) = ipAssignment c"
  "graph_ptr (snd (controller_registerProcessCallback h proc c)) = graph_ptr c"
  "config (snd (controller_registerProcessCallback h proc c)) = config c"
  "registered_hosts (snd (controller_registerProcessCallback h proc c)) = registered_hosts c"
  "manager c \<noteq> None \<Longrightarrow> manager (snd (controller_registerProcessCallback h proc c)) \<noteq> None"
  "manager c \<noteq> None \<Longrightarrow> fst (controller_registerProcessCallback h proc c) \<noteq> Aborted a"
  by (auto simp: controller_registerProcessCallback_def Let_def registered_hosts_def
      funpow_addProcess_hosts split: option.splits)

lemma processes_keep:
  assumes "manager c \<noteq> None"
  shows "ipAssignment (snd (for_each (controller_registerProcessCallback h) procs c)) = ipAssignment c
    \<and> graph_ptr (snd (for_each (controller_registerProcessCallback h) procs c)) = graph_ptr c
    \<and> config (snd (for_each (controller_registerProcessCallback h) procs c)) = config c
    \<and> registered_hosts (snd (for_each (controller_registerProcessCallback h) procs c))
        = registered_hosts c
    \<and> manager (snd (for_each (controller_registerProcessCallback h) procs c)) \<noteq> None
    \<and> (\<forall>a. fst (for_each (controller_registerProcessCallback h) procs c) \<noteq> Aborted a)"
proof -
  let ?P = "\<lambda>c'. ipAssignment c' = ipAssignment c \<and> graph_ptr c' = graph_ptr c
      \<and> config c' = config c \<and> registered_hosts c' = registered_hosts c \<and> manager c' \<noteq> None"
  have "?P (snd (for_each (controller_registerProcessCallback h) procs c))
      \<and> (\<forall>a. fst (for_each (controller_registerProcessCallback h) procs c) \<noteq> Aborted a)"
    by (rule for_each_invariant[where P = ?P])
      (use assms in \<open>simp_all add: process_callback_keeps\<close>)
  then show ?thesis by simp
qed

lemma bandwidth_found:
  "(accessor_found fromGraph \<or> accessor_found fromHost)
     = (resolved_bandwidth fromHost fromGraph \<noteq> None)"
  "resolved_bandwidth fromHost fromGraph = Some v \<Longrightarrow>
     accessor_store fromHost (accessor_store fromGraph old) = v"
  by (auto simp: accessor_found_def accessor_store_def resolved_bandwidth_def split: option.splits)

lemma instance_bad_bandwidth:
  assumes "ipAssignment c = Some ia" "graph_ptr c = Some g"
    and "assign_instance_ip ipAddrSet ia (hostoptions_getNetworkNodeId host) ip0 = Inr (ip1, ia1)"
    and "resolved_bandwidth (hostoptions_getBandwidthDown host)
           (networkgraph_nodeBandwidthDownBits g (hostoptions_getNetworkNodeId host)) = down"
    and "resolved_bandwidth (hostoptions_getBandwidthUp host)
           (networkgraph_nodeBandwidthUpBits g (hostoptions_getNetworkNodeId host)) = up"
    and "down = None \<or> up = None \<or> down = Some 0 \<or> up = Some 0"
  shows "register_host_instance name cfg host freq ipAddrSet i (ip0, c)
     = (Failure ErrBandwidth, ip1, c\<lparr>ipAssignment := Some ia1\<rparr>)"
proof -
  have f: "(accessor_found (networkgraph_nodeBandwidthDownBits g (hostoptions_getNetworkNodeId host))
          \<or> accessor_found (hostoptions_getBandwidthDown host)) = (down \<noteq> None)"
    "(accessor_found (networkgraph_nodeBandwidthUpBits g (hostoptions_getNetworkNodeId host))
          \<or> accessor_found (hostoptions_getBandwidthUp host)) = (up \<noteq> None)"
    using assms(4,5) by (simp_all add: bandwidth_found(1))
  show ?thesis
  proof (cases "down = None \<or> up = None")
    case True
    then show ?thesis
      using assms(1-3) f by (auto simp: register_host_instance_def Let_def)
  next
    case False
    then obtain d u where du: "down = Some d" "up = Some u" by auto
    with assms(6) have z: "d = 0 \<or> u = 0" by simp
    have s: "accessor_store (hostoptions_getBandwidthDown host)
          (accessor_store (networkgraph_nodeBandwidthDownBits g (hostoptions_getNetworkNodeId host)) 0) = d"
       "accessor_store (hostoptions_getBandwidthUp host)
          (accessor_store (networkgraph_nodeBandwidthUpBits g (hostoptions_getNetworkNodeId host)) 0) = u"
      using assms(4,5) du by (simp_all add: bandwidth_found(2))
    show ?thesis
      using assms(1-3) f du z s
      by (auto simp: register_host_instance_def Let_def instance_params_def)
  qed
qed

lemma instance_good_bandwidth:
  assumes "ipAssignment c = Some ia" "graph_ptr c = Some g" "manager c = Some m"
    and "assign_instance_ip ipAddrSet ia (hostoptions_getNetworkNodeId host) ip0 = Inr (ip1, ia1)"
    and "resolved_bandwidth (hostoptions_getBandwidthDown host)
           (networkgraph_nodeBandwidthDownBits g (hostoptions_getNetworkNodeId host)) = Some d"
    and "resolved_bandwidth (hostoptions_getBandwidthUp host)
           (networkgraph_nodeBandwidthUpBits g (hostoptions_getNetworkNodeId host)) = Some u"
    and "d \<noteq> 0" "u \<noteq> 0"
  shows "register_host_instance name cfg host freq ipAddrSet i (ip0, c)
     = (case for_each
               (controller_registerProcessCallback
                  (instance_hostname name (hostoptions_getQuantity host) i))
               (hostoptions_iterProcesses host)
               (c\<lparr>ipAssignment := Some ia1,
                  manager := Some (manager_addNewVirtualHost m
                    ((instance_params cfg host freq
                        (instance_hostname name (hostoptions_getQuantity host) i) ip1)
                       \<lparr>requestedBwDownBits := d, requestedBwUpBits := u\<rparr>))\<rparr>) of
          (st, c3) \<Rightarrow> (st, ip1, c3))"
proof -
  have f: "(accessor_found (networkgraph_nodeBandwidthDownBits g (hostoptions_getNetworkNodeId host))
          \<or> accessor_found (hostoptions_getBandwidthDown host))"
    "(accessor_found (networkgraph_nodeBandwidthUpBits g (hostoptions_getNetworkNodeId host))
          \<or> accessor_found (hostoptions_getBandwidthUp host))"
    using assms(5,6) by (simp_all add: bandwidth_found(1))
  have s: "accessor_store (hostoptions_getBandwidthDown host)
          (accessor_store (networkgraph_nodeBandwidthDownBits g (hostoptions_getNetworkNodeId host)) 0) = d"
       "accessor_store (hostoptions_getBandwidthUp host)
          (accessor_store (networkgraph_nodeBandwidthUpBits g (hostoptions_getNetworkNodeId host)) 0) = u"
    using assms(5,6) by (simp_all add: bandwidth_found(2))
  have p: "requestedBwDownBits (instance_params cfg host freq hn ip1) = 0"
    "requestedBwUpBits (instance_params cfg host freq hn ip1) = 0" for hn
    by (simp_all add: instance_params_def)
  show ?thesis
    using assms(1-4,7,8) f
    by (auto simp add: register_host_instance_def Let_def p s)
qed

lemma next_free_draw_fresh:
  "next_free_draw ia ws = Some (w, rest) \<Longrightarrow> \<not> ip_assigned ia w \<and> \<not> ip_reserved w"
  by (induction ws) (auto split: if_splits)

lemma assign_instance_ip_Inr:
  assumes "assign_instance_ip ipAddrSet ia node ip0 = Inr (ip1, ia1)"
  shows "set (map fst (ia_assigned ia1)) = insert ip1 (set (map fst (ia_assigned ia)))"
    and "ip1 \<notin> set (map fst (ia_assigned ia))"
    and "ipAddrSet \<Longrightarrow> ip1 = ip0"
proof -
  have "ia_assigned ia1 = (ip1, node) # ia_assigned ia \<and> \<not> ip_assigned ia ip1
      \<and> (ipAddrSet \<longrightarrow> ip1 = ip0)"
  proof (cases ipAddrSet)
    case True
    with assms show ?thesis
      by (auto simp: assign_instance_ip_def ipassignment_assignHostWithIp_def
          split: if_splits)
  next
    case False
    with assms obtain rest where "next_free_draw ia (ia_draws ia) = Some (ip1, rest)"
      and "ia1 = ia\<lparr>ia_assigned := (ip1, node) # ia_assigned ia, ia_draws := rest\<rparr>"
      by (auto simp: assign_instance_ip_def ipassignment_assignHost_def split: option.splits)
    with False show ?thesis by (auto dest: next_free_draw_fresh)
  qed
  then show "set (map fst (ia_assigned ia1)) = insert ip1 (set (map fst (ia_assigned ia)))"
    and "ip1 \<notin> set (map fst (ia_assigned ia))"
    and "ipAddrSet \<Longrightarrow> ip1 = ip0"
    by (simp_all add: ip_assigned_def)
qed

lemma registered_hosts_simps:
  "registered_hosts (c\<lparr>ipAssignment := x\<rparr>) = registered_hosts c"
  "registered_hosts (c\<lparr>manager := Some m\<rparr>) = virtualHosts m"
  "manager c = Some m \<Longrightarrow> registered_hosts c = virtualHosts m"
  by (simp_all add: registered_hosts_def)

lemma assigned_addresses_simps:
  "assigned_addresses (c\<lparr>manager := y\<rparr>) = assigned_addresses c"
  "assigned_addresses (c\<lparr>ipAssignment := Some ia\<rparr>) = set (map fst (ia_assigned ia))"
  "ipAssignment c = Some ia \<Longrightarrow> assigned_addresses c = set (map fst (ia_assigned ia))"
  by (simp_all add: assigned_addresses_def)

lemma instance_step:
  assumes ready: "registration_ready c"
    and step: "register_host_instance name cfg host freq ipAddrSet i (ip0, c) = (st, ip1, c')"
  shows "registration_ready c' \<and> config c' = config c \<and> graph_ptr c' = graph_ptr c
    \<and> (\<forall>a. st \<noteq> Aborted a)
    \<and> assigned_addresses c \<subseteq> assigned_addresses c'
    \<and> (\<exists>new. registered_hosts c' = registered_hosts c @ new
          \<and> (\<forall>p \<in> set new. ipAddr p = ip1 \<and> ip1 \<notin> assigned_addresses c)
          \<and> (st = Success \<longrightarrow> length new = 1))
    \<and> (st = Success \<longrightarrow> ip1 \<in> assigned_addresses c' \<and> (ipAddrSet \<longrightarrow> ip1 = ip0))"
proof -
  from ready obtain ia g m where c: "ipAssignment c = Some ia" "graph_ptr c = Some g"
    "manager c = Some m"
    by (auto simp: registration_ready_def)
  let ?node = "hostoptions_getNetworkNodeId host"
  let ?h = "instance_hostname name (hostoptions_getQuantity host) i"
  show ?thesis
  proof (cases "assign_instance_ip ipAddrSet ia ?node ip0")
    case (Inl e)
    with c step have "st = Failure e" "c' = c"
      by (simp_all add: register_host_instance_def Let_def)
    with ready show ?thesis by simp
  next
    case (Inr r)
    obtain ip ia1 where r: "r = (ip, ia1)" by (cases r)
    note asg = Inr[unfolded r]
    note a = assign_instance_ip_Inr[OF asg]
    let ?c1 = "c\<lparr>ipAssignment := Some ia1\<rparr>"
    have c1: "registration_ready ?c1" "config ?c1 = config c" "graph_ptr ?c1 = graph_ptr c"
      "assigned_addresses c \<subseteq> assigned_addresses ?c1" "registered_hosts ?c1 = registered_hosts c"
      "ip \<in> assigned_addresses ?c1" "ip \<notin> assigned_addresses c"
      using ready a c
      by (auto simp: registration_ready_def assigned_addresses_simps registered_hosts_simps)
    let ?down = "resolved_bandwidth (hostoptions_getBandwidthDown host)
                     (networkgraph_nodeBandwidthDownBits g ?node)"
    let ?up = "resolved_bandwidth (hostoptions_getBandwidthUp host)
                     (networkgraph_nodeBandwidthUpBits g ?node)"
    show ?thesis
    proof (cases "\<exists>d u. ?down = Some d \<and> ?up = Some u \<and> d \<noteq> 0 \<and> u \<noteq> 0")
      case False
      then have "?down = None \<or> ?up = None \<or> ?down = Some 0 \<or> ?up = Some 0"
        by (cases ?down; cases ?up) auto
      from instance_bad_bandwidth[OF c(1,2) asg refl refl this] step
      have "st = Failure ErrBandwidth \<and> ip1 = ip \<and> c' = ?c1"
        by simp
      with c1 show ?thesis by simp
    next
      case True
      then obtain d u where du: "?down = Some d" "?up = Some u" "d \<noteq> 0" "u \<noteq> 0" by auto
      let ?params = "(instance_params cfg host freq ?h ip)
                        \<lparr>requestedBwDownBits := d, requestedBwUpBits := u\<rparr>"
      let ?c2 = "c\<lparr>ipAssignment := Some ia1, manager := Some (manager_addNewVirtualHost m ?params)\<rparr>"
      let ?res = "for_each (controller_registerProcessCallback ?h) (hostoptions_iterProcesses host) ?c2"
      from instance_good_bandwidth[OF c asg du] step
      have res: "st = fst ?res" "ip1 = ip" "c' = snd ?res"
        by (simp_all split: prod.splits)
      have m2: "manager ?c2 \<noteq> None" by simp
      note keep = processes_keep[OF m2, of ?h "hostoptions_iterProcesses host"]
      have hosts2: "registered_hosts ?c2 = registered_hosts c @ [?params]"
        using c by (simp add: registered_hosts_def manager_addNewVirtualHost_def)
      have ipp: "ipAddr ?params = ip" by (simp add: instance_params_def)
      have asg': "assigned_addresses c' = assigned_addresses ?c1"
        using keep res by (simp add: assigned_addresses_def)
      have "registration_ready c'"
        using keep res c by (simp add: registration_ready_def)
      moreover have "config c' = config c" "graph_ptr c' = graph_ptr c"
        using keep res by simp_all
      moreover have "\<forall>a. st \<noteq> Aborted a" using keep res by simp
      moreover have "assigned_addresses c \<subseteq> assigned_addresses c'"
        using asg' c1 by simp
      moreover have "registered_hosts c' = registered_hosts c @ [?params]"
        using keep res hosts2 by simp
      moreover have "ip1 \<in> assigned_addresses c'" "ip1 \<notin> assigned_addresses c"
        using asg' c1 res by simp_all
      moreover have "ipAddrSet \<longrightarrow> ip1 = ip0" using a(3) res by simp
      ultimately show ?thesis using ipp res by simp
    qed
  qed
qed


lemma callback_skip:
  assumes "manager c \<noteq> None"
    and "accessor_found (hostoptions_getIpAddr host) \<noteq> flag"
  shows "controller_registerHostCallback name cfg host flag c = (Success, c)"
  using assms by (auto simp: controller_registerHostCallback_def Let_def)

lemma callback_ambiguous:
  assumes "manager c \<noteq> None"
    and "hostoptions_getIpAddr host = Some ip"
    and "hostoptions_getQuantity host > 1"
  shows "controller_registerHostCallback name cfg host True c = (Failure ErrAmbiguousAddress, c)"
  using assms by (auto simp: controller_registerHostCallback_def Let_def accessor_found_def)

lemma callback_loop:
  assumes "manager c = Some m"
    and "accessor_found (hostoptions_getIpAddr host) = flag"
    and "\<not> (flag \<and> hostoptions_getQuantity host > 1)"
  shows "controller_registerHostCallback name cfg host flag c =
    (case for_each (register_host_instance name cfg host (manager_getRawCPUFrequency m) flag)
            [0..<unat (hostoptions_getQuantity host)]
            (accessor_store (hostoptions_getIpAddr host) 0, c) of
       (st, ip1, c') \<Rightarrow> (st, c'))"
  using assms by (auto simp: controller_registerHostCallback_def Let_def)

lemma keeps_refl: "registration_ready c \<Longrightarrow> keeps c auto c"
  by (simp add: keeps_def)

lemma instances_keep:
  assumes "registration_ready c"
  shows "keeps c (\<not> flag) (snd (snd (for_each (register_host_instance name cfg host freq flag) ns (ip0, c))))
    \<and> (\<forall>a. fst (for_each (register_host_instance name cfg host freq flag) ns (ip0, c)) \<noteq> Aborted a)"
proof -
  let ?P = "\<lambda>s. keeps c (\<not> flag) (snd s)"
  have "?P (snd (for_each (register_host_instance name cfg host freq flag) ns (ip0, c)))
    \<and> (\<forall>a. fst (for_each (register_host_instance name cfg host freq flag) ns (ip0, c)) \<noteq> Aborted a)"
  proof (rule for_each_invariant[where P = ?P])
    show "?P (ip0, c)" using assms by (simp add: keeps_refl)
  next
    fix i and s :: "in_addr_t \<times> Controller"
    assume P: "?P s"
    obtain ip c1 where s: "s = (ip, c1)" by (cases s)
    obtain st ip1 c2 where step: "register_host_instance name cfg host freq flag i (ip, c1) = (st, ip1, c2)"
      by (cases "register_host_instance name cfg host freq flag i (ip, c1)") auto
    from P s have k: "keeps c (\<not> flag) c1" by simp
    then have r: "registration_ready c1" by (simp add: keeps_def)
    from instance_step[OF r step] k have "keeps c (\<not> flag) c2 \<and> (\<forall>a. st \<noteq> Aborted a)"
      unfolding keeps_def by (auto; blast)
    with s step show "?P (snd (register_host_instance name cfg host freq flag i s))
      \<and> (\<forall>a. fst (register_host_instance name cfg host freq flag i s) \<noteq> Aborted a)"
      by simp
  qed simp
  then show ?thesis by simp
qed

lemma callback_keeps:
  assumes "registration_ready c"
  shows "keeps c (hostoptions_getIpAddr host = None)
           (snd (controller_registerHostCallback name cfg host flag c))
    \<and> (\<forall>a. fst (controller_registerHostCallback name cfg host flag c) \<noteq> Aborted a)"
proof -
  from assms obtain m where m: "manager c = Some m" by (auto simp: registration_ready_def)
  show ?thesis
  proof (cases "accessor_found (hostoptions_getIpAddr host) = flag")
    case False
    then show ?thesis using callback_skip[of c host flag name cfg] m assms
      by (simp add: keeps_refl)
  next
    case True
    show ?thesis
    proof (cases "flag \<and> hostoptions_getQuantity host > 1")
      case True
      with \<open>accessor_found (hostoptions_getIpAddr host) = flag\<close> m assms show ?thesis
        by (auto simp: controller_registerHostCallback_def Let_def keeps_refl)
    next
      case False
      have e: "(hostoptions_getIpAddr host = None) = (\<not> flag)"
        using True by (auto simp: accessor_found_def)
      show ?thesis
        unfolding callback_loop[OF m True False] e
        using instances_keep[OF assms, of flag name cfg host "manager_getRawCPUFrequency m"
            "[0..<unat (hostoptions_getQuantity host)]" "accessor_store (hostoptions_getIpAddr host) 0"]
        by (auto split: prod.splits)
    qed
  qed
qed

lemma callback_binds:
  assumes "registration_ready c"
    and "hostoptions_getIpAddr host = Some X"
    and "hostoptions_getQuantity host \<noteq> 0"
    and "controller_registerHostCallback name cfg host True c = (Success, c')"
  shows "X \<in> assigned_addresses c'"
proof -
  from assms(1) obtain m where m: "manager c = Some m" by (auto simp: registration_ready_def)
  have f: "accessor_found (hostoptions_getIpAddr host) = True"
    using assms(2) by (simp add: accessor_found_def)
  have q: "\<not> (True \<and> hostoptions_getQuantity host > 1)"
    using assms(2,4) callback_ambiguous[of c host X name cfg] m by auto
  then have "hostoptions_getQuantity host = 1"
    using assms(3) by (metis word_less_1 word_neq_0_conv not_less_iff_gr_or_eq)
  then have ns: "[0..<unat (hostoptions_getQuantity host)] = [0]" by simp
  have s: "accessor_store (hostoptions_getIpAddr host) 0 = X"
    using assms(2) by (simp add: accessor_store_def)
  obtain st ip1 c1 where step:
    "register_host_instance name cfg host (manager_getRawCPUFrequency m) True 0 (X, c) = (st, ip1, c1)"
    by (cases "register_host_instance name cfg host (manager_getRawCPUFrequency m) True 0 (X, c)") auto
  from assms(4) have "st = Success \<and> c1 = c'"
    unfolding callback_loop[OF m f q] ns s using step
    by (auto split: status.splits)
  with instance_step[OF assms(1) step] show ?thesis by blast
qed


lemma keeps_trans:
  assumes "keeps c a c1" "keeps c1 b c2" "a \<Longrightarrow> b"
  shows "keeps c a c2"
proof -
  from assms(1) obtain new1 where n1: "registered_hosts c1 = registered_hosts c @ new1"
    "a \<longrightarrow> (\<forall>p \<in> set new1. ipAddr p \<notin> assigned_addresses c)"
    and k1: "config c1 = config c" "graph_ptr c1 = graph_ptr c"
      "assigned_addresses c \<subseteq> assigned_addresses c1"
    unfolding keeps_def by blast
  from assms(2) obtain new2 where n2: "registered_hosts c2 = registered_hosts c1 @ new2"
    "b \<longrightarrow> (\<forall>p \<in> set new2. ipAddr p \<notin> assigned_addresses c1)"
    and k2: "registration_ready c2" "config c2 = config c1" "graph_ptr c2 = graph_ptr c1"
      "assigned_addresses c1 \<subseteq> assigned_addresses c2"
    unfolding keeps_def by blast
  have "registered_hosts c2 = registered_hosts c @ (new1 @ new2)"
    using n1 n2 by simp
  moreover have "a \<longrightarrow> (\<forall>p \<in> set (new1 @ new2). ipAddr p \<notin> assigned_addresses c)"
    using n1(2) n2(2) k1(3) assms(3) by auto
  ultimately have "\<exists>new. registered_hosts c2 = registered_hosts c @ new
      \<and> (a \<longrightarrow> (\<forall>p \<in> set new. ipAddr p \<notin> assigned_addresses c))"
    by blast
  moreover have "assigned_addresses c \<subseteq> assigned_addresses c2"
    using k1(3) k2(4) by (rule subset_trans)
  ultimately show ?thesis
    unfolding keeps_def using k1(1,2) k2(1,2,3) by simp
qed

lemma pass_keeps:
  assumes "registration_ready c"
  shows "keeps c (\<not> flag) (snd (register_pass flag cfg hosts c))
    \<and> (\<forall>a. fst (register_pass flag cfg hosts c) \<noteq> Aborted a)"
  unfolding register_pass_def
proof (rule for_each_invariant[where P = "keeps c (\<not> flag)"])
  show "keeps c (\<not> flag) c" using assms by (rule keeps_refl)
next
  fix entry c1
  assume k: "keeps c (\<not> flag) c1"
  then have r: "registration_ready c1" by (simp add: keeps_def)
  let ?res = "controller_registerHostCallback (fst entry) cfg (snd entry) flag c1"
  note ck = callback_keeps[OF r, of "snd entry" "fst entry" cfg flag]
  have "keeps c1 (\<not> flag) (snd ?res)"
  proof (cases "accessor_found (hostoptions_getIpAddr (snd entry)) = flag")
    case True
    then have "(hostoptions_getIpAddr (snd entry) = None) = (\<not> flag)"
      by (auto simp: accessor_found_def)
    with ck show ?thesis by simp
  next
    case False
    from r have "manager c1 \<noteq> None" by (simp add: registration_ready_def)
    from callback_skip[OF this False] r show ?thesis by (simp add: keeps_refl)
  qed
  with k have "keeps c (\<not> flag) (snd ?res)" by (rule keeps_trans)
  with ck show "keeps c (\<not> flag) (snd ?res) \<and> (\<forall>a. fst ?res \<noteq> Aborted a)" by simp
qed simp

lemma pass_binds:
  assumes ready: "registration_ready c"
    and pass: "register_pass True cfg hosts c = (Success, c1)"
    and mem: "(name, host) \<in> set hosts"
    and ip: "hostoptions_getIpAddr host = Some X"
    and q: "hostoptions_getQuantity host \<noteq> 0"
  shows "X \<in> assigned_addresses c1"
proof -
  let ?f = "\<lambda>entry. controller_registerHostCallback (fst entry) cfg (snd entry) True"
  from pass have run: "for_each ?f hosts c = (Success, c1)" by (simp add: register_pass_def)
  from run mem ready show ?thesis
  proof (rule for_each_reaches[where P = registration_ready])
    fix y s s'
    assume "registration_ready s" "?f y s = (Success, s')"
    then show "registration_ready s'"
      using callback_keeps[of s "snd y" "fst y" cfg True] by (simp add: keeps_def)
  next
    fix s s'
    assume "registration_ready s" "?f (name, host) s = (Success, s')"
    then show "X \<in> assigned_addresses s'"
      using callback_binds[OF _ ip q, of s name cfg s'] by simp
  next
    fix y s s'
    assume "registration_ready s" "X \<in> assigned_addresses s" "?f y s = (Success, s')"
    then show "X \<in> assigned_addresses s'"
      using callback_keeps[of s "snd y" "fst y" cfg True] by (auto simp: keeps_def)
  qed
qed

lemma instances_count:
  assumes "registration_ready c"
    and "for_each (register_host_instance name cfg host freq flag) ns (ip0, c) = (Success, ip1, c')"
  shows "length (registered_hosts c') = length (registered_hosts c) + length ns"
  using assms
proof (induction ns arbitrary: ip0 c)
  case Nil
  then show ?case by simp
next
  case (Cons n ns)
  from Cons.prems(2) obtain s1 where
    step: "register_host_instance name cfg host freq flag n (ip0, c) = (Success, s1)"
    and rest: "for_each (register_host_instance name cfg host freq flag) ns s1 = (Success, ip1, c')"
    by (auto simp: for_each_Success_Cons simp del: for_each.simps(2))
  obtain ip c1 where s1: "s1 = (ip, c1)" by (cases s1)
  from instance_step[OF Cons.prems(1) step[unfolded s1]]
  have r: "registration_ready c1"
    and l: "length (registered_hosts c1) = length (registered_hosts c) + 1"
    by auto
  from Cons.IH[OF r rest[unfolded s1]] l show ?case by simp
qed

lemma callback_count:
  assumes "registration_ready c"
    and "hostoptions_getIpAddr host = None"
    and "controller_registerHostCallback name cfg host False c = (Success, c')"
  shows "length (registered_hosts c')
     = length (registered_hosts c) + unat (hostoptions_getQuantity host)"
proof -
  from assms(1) obtain m where m: "manager c = Some m" by (auto simp: registration_ready_def)
  have f: "accessor_found (hostoptions_getIpAddr host) = False"
    using assms(2) by (simp add: accessor_found_def)
  have q: "\<not> (False \<and> hostoptions_getQuantity host > 1)" by simp
  from assms(3) obtain ip1 where
    "for_each (register_host_instance name cfg host (manager_getRawCPUFrequency m) False)
       [0..<unat (hostoptions_getQuantity host)]
       (accessor_store (hostoptions_getIpAddr host) 0, c) = (Success, ip1, c')"
    unfolding callback_loop[OF m f q] by (auto split: prod.splits)
  from instances_count[OF assms(1) this] show ?thesis by simp
qed


lemma scenario_registration_fields:
  "manager (scenario_registration hosts pool) = Some scenario_manager"
  "ipAssignment (scenario_registration hosts pool) = Some (ipassignment_new pool)"
  "graph_ptr (scenario_registration hosts pool) = Some scenario_graph"
  "config_iterHosts (config (scenario_registration hosts pool)) = hosts"
  "registration_ready (scenario_registration hosts pool)"
  by (simp_all add: scenario_registration_def controller_initializeTimeWindows_def
      controller_new_def scenario_config_def Let_def registration_ready_def)

text \<open>
  C4, as amended. Registration runs two passes: the first registers the entries with an
  explicit address and skips the others, the second registers the others. For every
  configuration in which an entry \<open>H1\<close> has explicit address \<open>X\<close> and a quantity
  other than 0, and an entry \<open>H2\<close> has no explicit address, wherever the two stand in
  the configuration, and whatever registration returns: the first pass leaves the
  controller as it is at \<open>H2\<close>; no host added after the first pass has address \<open>X\<close>;
  and when the second pass reaches \<open>H2\<close>, \<open>X\<close> is bound and the hosts its callback
  adds, one for each instance when it succeeds, all have addresses other than \<open>X\<close>.
\<close>

theorem fixed_address_not_reallocated:
  assumes ready: "registration_ready c"
    and h1: "(name1, H1) \<in> set (config_iterHosts (config c))"
      "hostoptions_getIpAddr H1 = Some X" "hostoptions_getQuantity H1 \<noteq> 0"
    and h2: "config_iterHosts (config c) = pre @ (name2, H2) # post"
      "hostoptions_getIpAddr H2 = None"
  shows "(\<forall>s. manager s \<noteq> None \<longrightarrow>
            controller_registerHostCallback name2 (config c) H2 True s = (Success, s))
    \<and> (\<exists>new. registered_hosts (snd (controller_registerHosts c))
              = registered_hosts
                  (snd (register_pass True (config c) (config_iterHosts (config c)) c)) @ new
            \<and> (\<forall>p \<in> set new. ipAddr p \<noteq> X))
    \<and> (\<forall>c1 c2. register_pass True (config c) (config_iterHosts (config c)) c = (Success, c1)
            \<and> register_pass False (config c) pre c1 = (Success, c2) \<longrightarrow>
          X \<in> assigned_addresses c2
          \<and> (\<exists>new. registered_hosts
                      (snd (controller_registerHostCallback name2 (config c) H2 False c2))
                    = registered_hosts c2 @ new
                \<and> (\<forall>p \<in> set new. ipAddr p \<noteq> X)
                \<and> (fst (controller_registerHostCallback name2 (config c) H2 False c2) = Success
                     \<longrightarrow> length new = unat (hostoptions_getQuantity H2))))"
proof -
  let ?cfg = "config c"
  let ?p1 = "register_pass True ?cfg (config_iterHosts ?cfg) c"
  have skip: "\<forall>s. manager s \<noteq> None \<longrightarrow>
            controller_registerHostCallback name2 ?cfg H2 True s = (Success, s)"
  proof (intro allI impI)
    fix s :: Controller
    assume "manager s \<noteq> None"
    moreover have "accessor_found (hostoptions_getIpAddr H2) \<noteq> True"
      using h2(2) by (simp add: accessor_found_def)
    ultimately show "controller_registerHostCallback name2 ?cfg H2 True s = (Success, s)"
      by (rule callback_skip)
  qed
  have after: "\<exists>new. registered_hosts (snd (controller_registerHosts c))
              = registered_hosts (snd ?p1) @ new
            \<and> (\<forall>p \<in> set new. ipAddr p \<noteq> X)"
  proof (cases "fst ?p1 = Success")
    case True
    then obtain c1 where p1: "?p1 = (Success, c1)" by (cases ?p1) auto
    from pass_keeps[OF ready, of True ?cfg "config_iterHosts ?cfg"] p1
    have r1: "registration_ready c1" and cfg1: "config c1 = ?cfg"
      by (simp_all add: keeps_def)
    from pass_binds[OF ready p1 h1] have X1: "X \<in> assigned_addresses c1" .
    have rh: "controller_registerHosts c = register_pass False ?cfg (config_iterHosts ?cfg) c1"
      using p1 cfg1 by (simp add: controller_registerHosts_def)
    from pass_keeps[OF r1, of False ?cfg "config_iterHosts ?cfg"]
    have "keeps c1 True (snd (controller_registerHosts c))"
      unfolding rh by simp
    then obtain new where "registered_hosts (snd (controller_registerHosts c))
        = registered_hosts c1 @ new"
      "\<forall>p \<in> set new. ipAddr p \<notin> assigned_addresses c1"
      by (auto simp: keeps_def)
    with X1 p1 show ?thesis by auto
  next
    case False
    then have "controller_registerHosts c = ?p1"
      by (cases ?p1; cases "fst ?p1") (auto simp: controller_registerHosts_def)
    then show ?thesis by simp
  qed
  have entry: "\<forall>c1 c2. ?p1 = (Success, c1)
            \<and> register_pass False ?cfg pre c1 = (Success, c2) \<longrightarrow>
          X \<in> assigned_addresses c2
          \<and> (\<exists>new. registered_hosts
                      (snd (controller_registerHostCallback name2 ?cfg H2 False c2))
                    = registered_hosts c2 @ new
                \<and> (\<forall>p \<in> set new. ipAddr p \<noteq> X)
                \<and> (fst (controller_registerHostCallback name2 ?cfg H2 False c2) = Success
                     \<longrightarrow> length new = unat (hostoptions_getQuantity H2)))"
  proof (intro allI impI)
    fix c1 c2
    let ?cb = "controller_registerHostCallback name2 ?cfg H2 False c2"
    assume a: "?p1 = (Success, c1) \<and> register_pass False ?cfg pre c1 = (Success, c2)"
    from pass_keeps[OF ready, of True ?cfg "config_iterHosts ?cfg"] a
    have r1: "registration_ready c1" by (simp add: keeps_def)
    from pass_binds[OF ready _ h1] a have X1: "X \<in> assigned_addresses c1" by blast
    from pass_keeps[OF r1, of False ?cfg pre] a have "keeps c1 True c2" by simp
    then have r2: "registration_ready c2" and X2: "X \<in> assigned_addresses c2"
      using X1 by (auto simp: keeps_def)
    from callback_keeps[OF r2, of H2 name2 ?cfg False] h2(2)
    have "keeps c2 True (snd ?cb)" by simp
    then obtain new where new: "registered_hosts (snd ?cb) = registered_hosts c2 @ new"
      "\<forall>p \<in> set new. ipAddr p \<notin> assigned_addresses c2"
      by (auto simp: keeps_def)
    have "length new = unat (hostoptions_getQuantity H2)" if "fst ?cb = Success"
    proof -
      from that have "?cb = (Success, snd ?cb)" by (simp add: prod_eq_iff)
      from callback_count[OF r2 h2(2) this] new(1) show ?thesis by simp
    qed
    moreover from new(2) X2 have "\<forall>p \<in> set new. ipAddr p \<noteq> X" by auto
    ultimately show "X \<in> assigned_addresses c2
          \<and> (\<exists>new. registered_hosts (snd ?cb) = registered_hosts c2 @ new
                \<and> (\<forall>p \<in> set new. ipAddr p \<noteq> X)
                \<and> (fst ?cb = Success \<longrightarrow> length new = unat (hostoptions_getQuantity H2)))"
      using X2 new(1) by blast
  qed
  from skip after entry show ?thesis by (intro conjI)
qed

lemma pass_rejects:
  assumes ready: "registration_ready c"
    and mem: "(name, host) \<in> set hosts"
    and ip: "hostoptions_getIpAddr host = Some ip"
    and q: "hostoptions_getQuantity host > 1"
  shows "\<exists>e. fst (register_pass True cfg hosts c) = Failure e"
proof (cases "fst (register_pass True cfg hosts c)")
  case Success
  let ?f = "\<lambda>entry. controller_registerHostCallback (fst entry) cfg (snd entry) True"
  from Success have run: "for_each ?f hosts c = (Success, snd (register_pass True cfg hosts c))"
    by (simp add: register_pass_def prod_eq_iff)
  from run mem ready have False
  proof (rule for_each_reaches[where P = registration_ready])
    fix y s s'
    assume "registration_ready s" "?f y s = (Success, s')"
    then show "registration_ready s'"
      using callback_keeps[of s "snd y" "fst y" cfg True] by (simp add: keeps_def)
  next
    fix s s'
    assume "registration_ready s" "?f (name, host) s = (Success, s')"
    then show False
      using callback_ambiguous[OF _ ip q, of s name cfg] by (simp add: registration_ready_def)
  qed simp
  then show ?thesis ..
next
  case (Failure e)
  then show ?thesis by simp
next
  case (Aborted a)
  with pass_keeps[OF ready, of True cfg hosts] show ?thesis by simp
qed

lemma registerHosts_rejects:
  assumes "registration_ready c"
    and "(name, host) \<in> set (config_iterHosts (config c))"
    and "hostoptions_getIpAddr host = Some ip"
    and "hostoptions_getQuantity host > 1"
  shows "\<exists>e. fst (controller_registerHosts c) = Failure e"
proof -
  from pass_rejects[OF assms, of "config c"] obtain e where
    "fst (register_pass True (config c) (config_iterHosts (config c)) c) = Failure e" ..
  then show ?thesis
    by (cases "register_pass True (config c) (config_iterHosts (config c)) c")
      (simp add: controller_registerHosts_def)
qed

lemma initializeTimeWindows_keeps:
  "config (controller_initializeTimeWindows c) = config c"
  "graph_ptr (controller_initializeTimeWindows c) = graph_ptr c"
  "ipAssignment (controller_initializeTimeWindows c) = ipAssignment c"
  "manager (controller_initializeTimeWindows c) = manager c"
  "random_src (controller_initializeTimeWindows c) = random_src c"
  "endTime (controller_initializeTimeWindows c) = config_getStopTime (config c)"
  "bootstrapEndTime (controller_initializeTimeWindows c) = config_getBootstrapEndTime (config c)"
  by (simp_all add: controller_initializeTimeWindows_def Let_def)

lemma run_graph_fails:
  "networkgraph_load env (config c) = None \<Longrightarrow> fst (controller_run env c) = Inr 1"
  by (simp add: controller_run_def controller_loadNetworkGraph_def Let_def)

lemma run_panics:
  assumes "networkgraph_load env (config c) \<noteq> None" "random_src c = Some rnd"
    and "manager_new env (config c) (config_getStopTime (config c))
           (config_getBootstrapEndTime (config c)) (fst (random_nextUInt env rnd)) = None"
  shows "fst (controller_run env c) = Inl Panic"
  using assms
  by (simp add: controller_run_def controller_loadNetworkGraph_def Let_def
      initializeTimeWindows_keeps)

lemma run_registration_fails:
  assumes g: "networkgraph_load env (config c) = Some g" and r: "random_src c = Some rnd"
    and m: "manager_new env (config c) (config_getStopTime (config c))
           (config_getBootstrapEndTime (config c)) (fst (random_nextUInt env rnd)) = Some m"
    and mem: "(name, host) \<in> set (config_iterHosts (config c))"
    and ip: "hostoptions_getIpAddr host = Some ip"
    and q: "hostoptions_getQuantity host > 1"
  shows "fst (controller_run env c) = Inr 1"
proof -
  let ?c2 = "controller_initializeTimeWindows
      (c\<lparr>graph_ptr := Some g, ipAssignment := Some (ipassignment_new (ip_pool env)),
         dns := Some DNS\<rparr>)"
  let ?c4 = "?c2\<lparr>random_src := Some (snd (random_nextUInt env rnd)), manager := Some m\<rparr>"
  have ready: "registration_ready ?c4"
    by (simp add: registration_ready_def initializeTimeWindows_keeps)
  have cfg: "config ?c4 = config c"
    by (simp add: initializeTimeWindows_keeps)
  from registerHosts_rejects[OF ready _ ip q, of name] mem cfg
  obtain e where e: "fst (controller_registerHosts ?c4) = Failure e" by auto
  have "fst (controller_run env c) =
     fst (case controller_registerHosts ?c4 of
            (Failure e, c5) \<Rightarrow> (Inr 1, c5)
          | (Aborted a, c5) \<Rightarrow> (Inl a, c5)
          | (Success, c5) \<Rightarrow>
              (case (graph_ptr c5, ipAssignment c5) of
                 (Some g, Some ia) \<Rightarrow>
                   (let c6 = c5\<lparr>routingInfo := routinginfo_new env g ia
                                   (config_getUseShortestPath (config c5))\<rparr>
                    in if routingInfo c6 = None then (Inr 1, c6)
                       else (let c7 = c6\<lparr>graph_ptr := None\<rparr>;
                                 c8 = manager_run env c7
                             in case manager c8 of
                                  None \<Rightarrow> (Inl UndefinedBehaviour, c8)
                                | Some m \<Rightarrow> (Inr (manager_free env m), c8)))
               | _ \<Rightarrow> (Inl UndefinedBehaviour, c5)))"
    using g r m
    by (simp add: controller_run_def controller_loadNetworkGraph_def Let_def
        initializeTimeWindows_keeps)
  with e show ?thesis
    by (cases "controller_registerHosts ?c4") simp
qed

lemma pass_rejects_after:
  assumes ready: "registration_ready c"
    and pre: "register_pass True cfg pre c = (Success, c1)"
    and ip: "hostoptions_getIpAddr host = Some ip"
    and q: "hostoptions_getQuantity host > 1"
  shows "register_pass True cfg (pre @ (name, host) # post) c = (Failure ErrAmbiguousAddress, c1)"
proof -
  from pass_keeps[OF ready, of True cfg pre] pre have "manager c1 \<noteq> None"
    by (simp add: keeps_def registration_ready_def)
  from callback_ambiguous[OF this ip q, of name cfg] pre show ?thesis
    by (simp add: register_pass_def for_each_append)
qed

text \<open>
  C7. For every host entry with an explicit address and a quantity above 1: the
  registration callback of the first pass returns the error for an ambiguous address and
  leaves the controller as it was, so no address is assigned and no host is added for
  the entry; registration of a configuration that contains the entry fails, with that
  very error when the first pass gets as far as the entry; and \<^verbatim>\<open>controller_run\<close> on a
  new controller returns 1, unless the graph loads and the manager cannot be created, in
  which case it panics before registration.
\<close>

theorem ambiguous_address_rejected:
  assumes ip: "hostoptions_getIpAddr host = Some ip"
    and q: "hostoptions_getQuantity host > 1"
  shows "(manager c \<noteq> None \<longrightarrow>
            controller_registerHostCallback name cfg host True c
              = (Failure ErrAmbiguousAddress, c))
    \<and> (registration_ready c \<and> (name, host) \<in> set (config_iterHosts (config c)) \<longrightarrow>
         (\<exists>e. fst (controller_registerHosts c) = Failure e))
    \<and> (registration_ready c \<and> config_iterHosts (config c) = pre @ (name, host) # post
         \<and> register_pass True (config c) pre c = (Success, c1) \<longrightarrow>
         controller_registerHosts c = (Failure ErrAmbiguousAddress, c1))
    \<and> ((name, host) \<in> set (config_iterHosts cfg) \<longrightarrow>
         fst (controller_run env (fst (controller_new cfg)))
           = (if networkgraph_load env cfg \<noteq> None
                 \<and> manager_new env cfg (config_getStopTime cfg) (config_getBootstrapEndTime cfg)
                      (fst (random_nextUInt env (random_new (config_getSeed cfg)))) = None
              then Inl Panic else Inr 1))"
proof (intro conjI impI)
  assume "manager c \<noteq> None"
  then show "controller_registerHostCallback name cfg host True c = (Failure ErrAmbiguousAddress, c)"
    using ip q by (rule callback_ambiguous)
next
  assume "registration_ready c \<and> (name, host) \<in> set (config_iterHosts (config c))"
  then show "\<exists>e. fst (controller_registerHosts c) = Failure e"
    using registerHosts_rejects[OF _ _ ip q, of c name] by blast
next
  assume a: "registration_ready c \<and> config_iterHosts (config c) = pre @ (name, host) # post
         \<and> register_pass True (config c) pre c = (Success, c1)"
  then have "register_pass True (config c) (pre @ (name, host) # post) c
      = (Failure ErrAmbiguousAddress, c1)"
    using pass_rejects_after[OF _ _ ip q] by blast
  with a show "controller_registerHosts c = (Failure ErrAmbiguousAddress, c1)"
    by (simp add: controller_registerHosts_def)
next
  assume mem: "(name, host) \<in> set (config_iterHosts cfg)"
  let ?c = "fst (controller_new cfg)"
  have c: "config ?c = cfg" "random_src ?c = Some (random_new (config_getSeed cfg))"
    by (simp_all add: controller_new_def)
  show "fst (controller_run env ?c)
           = (if networkgraph_load env cfg \<noteq> None
                 \<and> manager_new env cfg (config_getStopTime cfg) (config_getBootstrapEndTime cfg)
                      (fst (random_nextUInt env (random_new (config_getSeed cfg)))) = None
              then Inl Panic else Inr 1)"
  proof (cases "networkgraph_load env cfg")
    case None
    then show ?thesis using run_graph_fails[of env ?c] c by simp
  next
    case (Some g)
    show ?thesis
    proof (cases "manager_new env cfg (config_getStopTime cfg) (config_getBootstrapEndTime cfg)
                      (fst (random_nextUInt env (random_new (config_getSeed cfg))))")
      case None
      then show ?thesis using run_panics[of env ?c] Some c by simp
    next
      case (Some m)
      from run_registration_fails[of env ?c g "random_new (config_getSeed cfg)" m name host ip]
        \<open>networkgraph_load env cfg = Some g\<close> Some mem ip q c
      show ?thesis by simp
    qed
  qed
qed


text \<open>The definitions that evaluating a registration scenario unfolds.\<close>

lemmas scenario_eval =
  controller_registerHosts_def register_pass_def controller_registerHostCallback_def
  register_host_instance_def scenario_registration_def controller_initializeTimeWindows_def
  controller_new_def scenario_config_def Let_def scenario_host_def scenario_graph_def
  scenario_manager_def accessor_found_def accessor_store_def assign_instance_ip_def
  ipassignment_assignHost_def ipassignment_assignHostWithIp_def ipassignment_new_def
  ip_reserved_def ip_assigned_def instance_hostname_def instance_params_def
  manager_addNewVirtualHost_def registered_hosts_def

text \<open>
  Without the condition on the quantity the claim fails. Entry A has the explicit address
  10.0.0.5 and quantity 0, entry B has no address and quantity 1, and the allocator's
  first draw is 10.0.0.5: the first pass binds nothing, and B is assigned 10.0.0.5.
\<close>

theorem fixed_address_not_reallocated_counterexample:
  "hostoptions_getIpAddr (scenario_host (Some 0x0A000005) 0 None None) = Some 0x0A000005
   \<and> hostoptions_getIpAddr (scenario_host None 1 None None) = None
   \<and> fst (controller_registerHosts
         (scenario_registration
            [(''A'', scenario_host (Some 0x0A000005) 0 None None),
             (''B'', scenario_host None 1 None None)]
            [0x0A000005])) = Success
   \<and> map (\<lambda>p. (hostname p, ipAddr p))
       (registered_hosts (snd (controller_registerHosts
         (scenario_registration
            [(''A'', scenario_host (Some 0x0A000005) 0 None None),
             (''B'', scenario_host None 1 None None)]
            [0x0A000005])))) = [(''B'', 0x0A000005)]"
  by (simp add: scenario_eval)

lemma decimal_digits:
  "decimal 1 = ''1''" "decimal 2 = ''2''" "decimal (Suc 0) = ''1''" "decimal (Suc (Suc 0)) = ''2''"
  by (simp_all add: decimal.simps digit_char_def numeral_2_eq_2[symmetric])

lemma upt_two: "[0..<2] = [0, 1]"
  by (simp add: numeral_2_eq_2)

text \<open>
  Scenario S3 with two instances, the entry without address declared first, and an
  allocator that draws 10.0.0.5 twice: A owns 10.0.0.5, B1 and B2 get the other draws.
\<close>

theorem fixed_address_not_reallocated_witness:
  "registration_ready
     (scenario_registration
        [(''B'', scenario_host None 2 None None),
         (''A'', scenario_host (Some 0x0A000005) 1 None None)]
        [0x0A000005, 0x0B000001, 0x0A000005, 0x0B000002])
   \<and> fst (controller_registerHosts
       (scenario_registration
          [(''B'', scenario_host None 2 None None),
           (''A'', scenario_host (Some 0x0A000005) 1 None None)]
          [0x0A000005, 0x0B000001, 0x0A000005, 0x0B000002])) = Success
   \<and> map (\<lambda>p. (hostname p, ipAddr p))
       (registered_hosts (snd (controller_registerHosts
         (scenario_registration
            [(''B'', scenario_host None 2 None None),
             (''A'', scenario_host (Some 0x0A000005) 1 None None)]
            [0x0A000005, 0x0B000001, 0x0A000005, 0x0B000002]))))
      = [(''A'', 0x0A000005), (''B1'', 0x0B000001), (''B2'', 0x0B000002)]
   \<and> (\<exists>new.
         registered_hosts (snd (controller_registerHosts
           (scenario_registration
              [(''B'', scenario_host None 2 None None),
               (''A'', scenario_host (Some 0x0A000005) 1 None None)]
              [0x0A000005, 0x0B000001, 0x0A000005, 0x0B000002])))
         = registered_hosts (snd (register_pass True
              (config (scenario_registration
                [(''B'', scenario_host None 2 None None),
                 (''A'', scenario_host (Some 0x0A000005) 1 None None)]
                [0x0A000005, 0x0B000001, 0x0A000005, 0x0B000002]))
              (config_iterHosts (config (scenario_registration
                [(''B'', scenario_host None 2 None None),
                 (''A'', scenario_host (Some 0x0A000005) 1 None None)]
                [0x0A000005, 0x0B000001, 0x0A000005, 0x0B000002])))
              (scenario_registration
                [(''B'', scenario_host None 2 None None),
                 (''A'', scenario_host (Some 0x0A000005) 1 None None)]
                [0x0A000005, 0x0B000001, 0x0A000005, 0x0B000002]))) @ new
         \<and> list_all (\<lambda>p. ipAddr p \<noteq> 0x0A000005) new)"
proof -
  let ?hB = "scenario_host None 2 None None"
  let ?hA = "scenario_host (Some 0x0A000005) 1 None None"
  let ?reg = "scenario_registration [(''B'', ?hB), (''A'', ?hA)]
              [0x0A000005, 0x0B000001, 0x0A000005, 0x0B000002]"
  have ready: "registration_ready ?reg" by (rule scenario_registration_fields)
  have ev: "fst (controller_registerHosts ?reg) = Success"
    "map (\<lambda>p. (hostname p, ipAddr p)) (registered_hosts (snd (controller_registerHosts ?reg)))
      = [(''A'', 0x0A000005), (''B1'', 0x0B000001), (''B2'', 0x0B000002)]"
    by (simp_all add: scenario_eval decimal_digits upt_two)
  have h1: "(''A'', ?hA) \<in> set (config_iterHosts (config ?reg))"
    "hostoptions_getIpAddr ?hA = Some 0x0A000005" "hostoptions_getQuantity ?hA \<noteq> 0"
    by (simp_all add: scenario_registration_fields scenario_host_def)
  have h2: "config_iterHosts (config ?reg) = [] @ (''B'', ?hB) # [(''A'', ?hA)]"
    "hostoptions_getIpAddr ?hB = None"
    by (simp_all add: scenario_registration_fields scenario_host_def)
  note t = fixed_address_not_reallocated[OF ready h1 h2, THEN conjunct2, THEN conjunct1]
  from t have after: "\<exists>new.
         registered_hosts (snd (controller_registerHosts ?reg))
         = registered_hosts (snd (register_pass True (config ?reg)
              (config_iterHosts (config ?reg)) ?reg)) @ new
         \<and> list_all (\<lambda>p. ipAddr p \<noteq> 0x0A000005) new"
    unfolding list_all_iff .
  from ready ev after show ?thesis by (intro conjI)
qed

text \<open>Scenario S6: an entry with an explicit address and quantity 3.\<close>

theorem ambiguous_address_rejected_witness:
  "hostoptions_getIpAddr (scenario_host (Some 0x0A000005) 3 None None) = Some 0x0A000005
   \<and> hostoptions_getQuantity (scenario_host (Some 0x0A000005) 3 None None) > 1
   \<and> controller_registerHosts
        (scenario_registration [(''A'', scenario_host (Some 0x0A000005) 3 None None)] [])
      = (Failure ErrAmbiguousAddress,
         scenario_registration [(''A'', scenario_host (Some 0x0A000005) 3 None None)] [])
   \<and> registered_hosts
        (scenario_registration [(''A'', scenario_host (Some 0x0A000005) 3 None None)] []) = []
   \<and> assigned_addresses
        (scenario_registration [(''A'', scenario_host (Some 0x0A000005) 3 None None)] []) = {}
   \<and> fst (controller_run (scenario_env [])
        (fst (controller_new (scenario_config (1000 * SIMTIME_ONE_MILLISECOND) 0 0
           [(''A'', scenario_host (Some 0x0A000005) 3 None None)])))) = Inr 1"
proof -
  let ?h = "scenario_host (Some 0x0A000005) 3 None None"
  let ?c = "scenario_registration [(''A'', ?h)] []"
  let ?cfg = "scenario_config (1000 * SIMTIME_ONE_MILLISECOND) 0 0 [(''A'', ?h)]"
  have ip: "hostoptions_getIpAddr ?h = Some 0x0A000005"
    and q: "hostoptions_getQuantity ?h > 1"
    by (simp_all add: scenario_host_def)
  have ready: "registration_ready ?c"
    and hosts: "config_iterHosts (config ?c) = [] @ (''A'', ?h) # []"
    and pre: "register_pass True (config ?c) [] ?c = (Success, ?c)"
    by (simp_all add: scenario_registration_fields register_pass_def)
  have mem: "(''A'', ?h) \<in> set (config_iterHosts ?cfg)"
    by (simp add: scenario_config_def)
  have env: "networkgraph_load (scenario_env []) ?cfg \<noteq> None"
    "manager_new (scenario_env []) ?cfg (config_getStopTime ?cfg) (config_getBootstrapEndTime ?cfg)
       (fst (random_nextUInt (scenario_env []) (random_new (config_getSeed ?cfg)))) \<noteq> None"
    by (simp_all add: scenario_env_def)
  have obs: "registered_hosts ?c = []" "assigned_addresses ?c = {}"
    by (simp_all add: registered_hosts_def assigned_addresses_def scenario_registration_fields
        scenario_manager_def ipassignment_new_def)
  note t = ambiguous_address_rejected[OF ip q, of ?c "''A''" ?cfg "[]" "[]" ?c "scenario_env []"]
  from t ready hosts pre mem env ip q obs show ?thesis by simp
qed

lemma callback_bad_bandwidth:
  assumes c: "ipAssignment c = Some ia" "graph_ptr c = Some g" "manager c = Some m"
    and flag: "accessor_found (hostoptions_getIpAddr host) = flag"
    and amb: "\<not> (flag \<and> hostoptions_getQuantity host > 1)"
    and q: "hostoptions_getQuantity host \<noteq> 0"
    and asg: "assign_instance_ip flag ia (hostoptions_getNetworkNodeId host)
           (accessor_store (hostoptions_getIpAddr host) 0) = Inr (ip1, ia1)"
    and bw: "resolved_bandwidth (hostoptions_getBandwidthDown host)
           (networkgraph_nodeBandwidthDownBits g (hostoptions_getNetworkNodeId host)) = down"
      "resolved_bandwidth (hostoptions_getBandwidthUp host)
           (networkgraph_nodeBandwidthUpBits g (hostoptions_getNetworkNodeId host)) = up"
      "down = None \<or> up = None \<or> down = Some 0 \<or> up = Some 0"
  shows "controller_registerHostCallback name cfg host flag c
     = (Failure ErrBandwidth, c\<lparr>ipAssignment := Some ia1\<rparr>)"
proof -
  from q have "0 < unat (hostoptions_getQuantity host)"
    by (simp add: unat_gt_0)
  then have ns: "[0..<unat (hostoptions_getQuantity host)]
      = 0 # [Suc 0..<unat (hostoptions_getQuantity host)]"
    by (rule upt_conv_Cons)
  from instance_bad_bandwidth[OF c(1,2) asg bw, of name cfg "manager_getRawCPUFrequency m" 0]
  show ?thesis
    unfolding callback_loop[OF c(3) flag amb] ns by simp
qed

text \<open>
  C8. For every host instance whose address has been assigned: each direction of
  bandwidth is the value of the host options if present and otherwise that of the graph
  node. If either direction has neither, or either value is zero, the loop body returns
  the bandwidth error and the manager's hosts are those it had, and the callback that
  runs the loop for the entry returns the bandwidth error at its first instance;
  otherwise the host is added with the two resolved values, and the body does not return
  the bandwidth error.
\<close>

theorem bandwidth_resolution:
  assumes "ipAssignment c = Some ia" "graph_ptr c = Some g" "manager c = Some m"
    and "assign_instance_ip ipAddrSet ia (hostoptions_getNetworkNodeId host) ip0 = Inr (ip1, ia1)"
  shows
    "(let down = resolved_bandwidth (hostoptions_getBandwidthDown host)
                   (networkgraph_nodeBandwidthDownBits g (hostoptions_getNetworkNodeId host));
          up = resolved_bandwidth (hostoptions_getBandwidthUp host)
                 (networkgraph_nodeBandwidthUpBits g (hostoptions_getNetworkNodeId host));
          result = register_host_instance name cfg host freq ipAddrSet i (ip0, c)
      in if down = None \<or> up = None \<or> down = Some 0 \<or> up = Some 0
         then result = (Failure ErrBandwidth, ip1, c\<lparr>ipAssignment := Some ia1\<rparr>)
              \<and> registered_hosts (snd (snd result)) = registered_hosts c
              \<and> (accessor_found (hostoptions_getIpAddr host) = ipAddrSet
                  \<and> \<not> (ipAddrSet \<and> hostoptions_getQuantity host > 1)
                  \<and> hostoptions_getQuantity host \<noteq> 0
                  \<and> ip0 = accessor_store (hostoptions_getIpAddr host) 0 \<longrightarrow>
                  controller_registerHostCallback name cfg host ipAddrSet c
                    = (Failure ErrBandwidth, c\<lparr>ipAssignment := Some ia1\<rparr>))
         else fst result \<noteq> Failure ErrBandwidth
              \<and> registered_hosts (snd (snd result)) =
                  registered_hosts c @
                    [(instance_params cfg host freq
                        (instance_hostname name (hostoptions_getQuantity host) i) ip1)
                       \<lparr>requestedBwDownBits := the down, requestedBwUpBits := the up\<rparr>])"
proof -
  let ?down = "resolved_bandwidth (hostoptions_getBandwidthDown host)
                   (networkgraph_nodeBandwidthDownBits g (hostoptions_getNetworkNodeId host))"
  let ?up = "resolved_bandwidth (hostoptions_getBandwidthUp host)
                 (networkgraph_nodeBandwidthUpBits g (hostoptions_getNetworkNodeId host))"
  let ?h = "instance_hostname name (hostoptions_getQuantity host) i"
  show ?thesis
  proof (cases "?down = None \<or> ?up = None \<or> ?down = Some 0 \<or> ?up = Some 0")
    case True
    have "controller_registerHostCallback name cfg host ipAddrSet c
        = (Failure ErrBandwidth, c\<lparr>ipAssignment := Some ia1\<rparr>)"
      if "accessor_found (hostoptions_getIpAddr host) = ipAddrSet"
        "\<not> (ipAddrSet \<and> hostoptions_getQuantity host > 1)"
        "hostoptions_getQuantity host \<noteq> 0"
        "ip0 = accessor_store (hostoptions_getIpAddr host) 0"
      using callback_bad_bandwidth[OF assms(1-3) that(1-3) _ refl refl True, of ip1 ia1 name cfg]
        assms(4) that(4) by simp
    with instance_bad_bandwidth[OF assms(1,2,4) refl refl True, of name cfg freq i] True
    show ?thesis by (simp add: Let_def registered_hosts_simps)
  next
    case False
    then obtain d u where du: "?down = Some d" "?up = Some u" "d \<noteq> 0" "u \<noteq> 0" by auto
    let ?params = "(instance_params cfg host freq ?h ip1)
                      \<lparr>requestedBwDownBits := d, requestedBwUpBits := u\<rparr>"
    let ?c2 = "c\<lparr>ipAssignment := Some ia1, manager := Some (manager_addNewVirtualHost m ?params)\<rparr>"
    let ?res = "for_each (controller_registerProcessCallback ?h) (hostoptions_iterProcesses host) ?c2"
    have m2: "manager ?c2 \<noteq> None" by simp
    note keep = processes_keep[OF m2, of ?h "hostoptions_iterProcesses host"]
    have hosts2: "registered_hosts ?c2 = registered_hosts c @ [?params]"
      using assms(3) by (simp add: registered_hosts_def manager_addNewVirtualHost_def)
    have st: "fst ?res \<noteq> Failure ErrBandwidth"
    proof -
      have "True \<and> fst ?res \<noteq> Failure ErrBandwidth"
        by (rule for_each_invariant[where P = "\<lambda>_. True"])
          (auto simp: controller_registerProcessCallback_def Let_def split: option.splits)
      then show ?thesis by simp
    qed
    from instance_good_bandwidth[OF assms du, of name cfg freq i] keep hosts2 st False du
    show ?thesis by (simp add: Let_def split: prod.splits)
  qed
qed

theorem bandwidth_resolution_witness:
  "register_host_instance ''B'' (scenario_config 0 0 0 []) (scenario_host None 1 (Some 0) None)
       3000000 False 0 (0, scenario_registration [] [0x0B000001])
     = (Failure ErrBandwidth, 0x0B000001,
        (scenario_registration [] [0x0B000001])
          \<lparr>ipAssignment := Some \<lparr>ia_assigned = [(0x0B000001, 0)], ia_draws = []\<rparr>\<rparr>)
   \<and> registered_hosts (snd (snd
        (register_host_instance ''B'' (scenario_config 0 0 0 [])
           (scenario_host None 1 (Some 0) None)
           3000000 False 0 (0, scenario_registration [] [0x0B000001])))) = []
   \<and> controller_registerHostCallback ''B'' (scenario_config 0 0 0 [])
        (scenario_host None 1 (Some 0) None) False (scenario_registration [] [0x0B000001])
     = (Failure ErrBandwidth,
        (scenario_registration [] [0x0B000001])
          \<lparr>ipAssignment := Some \<lparr>ia_assigned = [(0x0B000001, 0)], ia_draws = []\<rparr>\<rparr>)
   \<and> map (\<lambda>p. (hostname p, ipAddr p, requestedBwDownBits p, requestedBwUpBits p))
       (registered_hosts (snd (snd
        (register_host_instance ''B'' (scenario_config 0 0 0 [])
           (scenario_host None 1 (Some 5000000) None)
           3000000 False 0 (0, scenario_registration [] [0x0B000001])))))
      = [(''B'', 0x0B000001, 5000000, 1000000)]"
proof -
  let ?c = "scenario_registration [] [0x0B000001]"
  let ?ia1 = "\<lparr>ia_assigned = [(0x0B000001, 0)], ia_draws = []\<rparr> :: IpAssignment"
  have c: "ipAssignment ?c = Some (ipassignment_new [0x0B000001])"
    "graph_ptr ?c = Some scenario_graph" "manager ?c = Some scenario_manager"
    by (rule scenario_registration_fields)+
  have a: "assign_instance_ip False (ipassignment_new [0x0B000001])
        (hostoptions_getNetworkNodeId (scenario_host None 1 x None)) 0 = Inr (0x0B000001, ?ia1)" for x
    by (simp add: assign_instance_ip_def ipassignment_assignHost_def ipassignment_new_def
        ip_reserved_def ip_assigned_def scenario_host_def)
  have h: "registered_hosts ?c = []"
    by (simp add: registered_hosts_def c scenario_manager_def)
  note bad = bandwidth_resolution[OF c a, of "Some 0" "''B''" "scenario_config 0 0 0 []" 3000000 0]
  note good = bandwidth_resolution[OF c a, of "Some 5000000" "''B''" "scenario_config 0 0 0 []" 3000000 0]
  have bad': "resolved_bandwidth (hostoptions_getBandwidthDown (scenario_host None 1 (Some 0) None))
      (networkgraph_nodeBandwidthDownBits scenario_graph
         (hostoptions_getNetworkNodeId (scenario_host None 1 (Some 0) None))) = Some 0"
    by (simp add: resolved_bandwidth_def scenario_host_def)
  have good': "resolved_bandwidth (hostoptions_getBandwidthDown (scenario_host None 1 (Some 5000000) None))
      (networkgraph_nodeBandwidthDownBits scenario_graph
         (hostoptions_getNetworkNodeId (scenario_host None 1 (Some 5000000) None))) = Some 5000000"
    "resolved_bandwidth (hostoptions_getBandwidthUp (scenario_host None 1 (Some 5000000) None))
      (networkgraph_nodeBandwidthUpBits scenario_graph
         (hostoptions_getNetworkNodeId (scenario_host None 1 (Some 5000000) None))) = Some 1000000"
    by (simp_all add: resolved_bandwidth_def scenario_host_def scenario_graph_def)
  from bad have 1: "register_host_instance ''B'' (scenario_config 0 0 0 [])
       (scenario_host None 1 (Some 0) None) 3000000 False 0 (0, ?c)
     = (Failure ErrBandwidth, 0x0B000001, ?c\<lparr>ipAssignment := Some ?ia1\<rparr>)"
    unfolding bad' by (simp add: Let_def)
  have entry: "accessor_found (hostoptions_getIpAddr (scenario_host None 1 (Some 0) None)) = False"
    "hostoptions_getQuantity (scenario_host None 1 (Some 0) None) \<noteq> 0"
    "(0 :: in_addr_t) = accessor_store (hostoptions_getIpAddr (scenario_host None 1 (Some 0) None)) 0"
    by (simp_all add: accessor_found_def accessor_store_def scenario_host_def)
  from bad entry have 3: "controller_registerHostCallback ''B'' (scenario_config 0 0 0 [])
        (scenario_host None 1 (Some 0) None) False ?c
     = (Failure ErrBandwidth, ?c\<lparr>ipAssignment := Some ?ia1\<rparr>)"
    unfolding bad' by (simp add: Let_def)
  from good have 2: "registered_hosts (snd (snd
        (register_host_instance ''B'' (scenario_config 0 0 0 [])
           (scenario_host None 1 (Some 5000000) None) 3000000 False 0 (0, ?c))))
      = [] @ [(instance_params (scenario_config 0 0 0 []) (scenario_host None 1 (Some 5000000) None)
                3000000 (instance_hostname ''B''
                   (hostoptions_getQuantity (scenario_host None 1 (Some 5000000) None)) 0) 0x0B000001)
               \<lparr>requestedBwDownBits := 5000000, requestedBwUpBits := 1000000\<rparr>]"
    unfolding good' h by (simp add: Let_def)
  show ?thesis
    unfolding 1 2 3
    by (simp add: registered_hosts_simps h instance_params_def instance_hostname_def
        scenario_host_def)
qed

text \<open>
  C5, against the code. \<^verbatim>\<open>controller_new\<close> seeds the random source from the
  configuration's seed and takes \<^verbatim>\<open>minJumpTimeConfig\<close> from its runahead, but it does
  emit a log message: the call of \<^verbatim>\<open>info\<close> on its last line but one, in a function whose
  own comment says that nothing in it may cause a log message.
\<close>

theorem controller_new_logs_message:
  "snd (controller_new cfg) = [(LOGLEVEL_INFO, ''simulation controller created'')]
   \<and> random_src (fst (controller_new cfg)) = Some (random_new (config_getSeed cfg))
   \<and> minJumpTimeConfig (fst (controller_new cfg)) = config_getRunahead cfg
   \<and> config (fst (controller_new cfg)) = cfg"
  by (simp add: controller_new_def)

text \<open>
  C6, against the code. The table has 14 entries, and for an index from 14 up to the
  size of the table in bytes (112 with 8-byte pointers, 56 with 4-byte pointers)
  \<^verbatim>\<open>fileserver_codetoa\<close> does not return \<^verbatim>\<open>NULL\<close>: the range check passes and the
  function reads the table past its end. It returns the entry for an index from 0 to 13
  and \<^verbatim>\<open>NULL\<close> for a negative index or one at or above the byte size.
\<close>

theorem fileserver_codetoa_reads_past_table:
  "length fileserver_code_strings = 14
   \<and> fileserver_codetoa 8 14 = Inl UndefinedBehaviour
   \<and> fileserver_codetoa 4 14 = Inl UndefinedBehaviour
   \<and> fileserver_codetoa 8 index =
       (if 0 \<le> index \<and> index < 14 then Inr (Some (fileserver_code_strings ! nat index))
        else if 14 \<le> index \<and> index < 112 then Inl UndefinedBehaviour
        else Inr None)"
  by (auto simp: fileserver_codetoa_def sizeof_fileserver_code_strings_def
      fileserver_code_strings_def Let_def)

end
